theory Spec2Isabelle
  imports Complex_Main "HOL-Library.Multiset" "HOL-Library.Char_ord" "HOL-Library.List_Lexorder"
begin

section \<open>Numbers\<close>

text \<open>
  The values that \<open>stats.py\<close> attaches to a message are Python ints (an observation
  count) and numpy floats (quotients of statistics).  A finite number is a real; rounding
  and signed zeros are not represented.  numpy's division of floats never raises: a zero
  divisor gives an infinity or nan, and every comparison with nan is false.
\<close>

datatype number = Fin real | PInf | NInf | NaN

fun num_le :: "number \<Rightarrow> number \<Rightarrow> bool" where
  "num_le NaN _ = False"
| "num_le _ NaN = False"
| "num_le NInf _ = True"
| "num_le _ PInf = True"
| "num_le PInf _ = False"
| "num_le _ NInf = False"
| "num_le (Fin x) (Fin y) = (x \<le> y)"

definition num_ge :: "number \<Rightarrow> number \<Rightarrow> bool" where
  "num_ge a b = num_le b a"

text \<open>\<open>None\<close> stands for nan where a statistic is a finite float or nan.\<close>

definition float_div :: "real option \<Rightarrow> real option \<Rightarrow> number" where
  "float_div a b =
     (case (a, b) of
        (Some x, Some y) \<Rightarrow>
          (if y \<noteq> 0 then Fin (x / y)
           else if 0 < x then PInf else if x < 0 then NInf else NaN)
      | _ \<Rightarrow> NaN)"

definition float_sub :: "real option \<Rightarrow> real option \<Rightarrow> real option" where
  "float_sub a b = (case (a, b) of (Some x, Some y) \<Rightarrow> Some (x - y) | _ \<Rightarrow> None)"

definition float_neg :: "real option \<Rightarrow> real option" where
  "float_neg a = map_option uminus a"

text \<open>Python's builtin \<open>max(a, b)\<close>: \<open>b\<close> replaces \<open>a\<close> only when \<open>b > a\<close> holds.\<close>

definition py_max :: "real option \<Rightarrow> real option \<Rightarrow> real option" where
  "py_max a b = (case (a, b) of (Some x, Some y) \<Rightarrow> (if x < y then b else a) | _ \<Rightarrow> a)"

section \<open>Runs, testers and the stat objects\<close>

text \<open>
  Modelled from the spec: \<open>RunData\<close> (module \<open>temci.tester.rundata\<close>) is the run
  collaborator: an identity, a description string and a mapping from property name to an
  ordered sequence of observations.  \<open>RunData.properties\<close> lists the keys of the mapping
  and \<open>run[property]\<close> looks one up.  Two runs are the same run when the records are equal.
\<close>

record RunData =
  run_id :: nat
  run_description :: string
  run_data :: "(string \<times> real list) list"

definition RunData_properties :: "RunData \<Rightarrow> string list" where
  "RunData_properties r = remdups (map fst (run_data r))"

definition RunData_getitem :: "RunData \<Rightarrow> string \<Rightarrow> real list option" where
  "RunData_getitem r property = map_of (run_data r) property"

text \<open>
  Modelled from the spec: a \<open>Tester\<close> (module \<open>temci.tester.testers\<close>) is resolved by
  name from the configuration; only its equality is used below.
\<close>

datatype Tester = Tester string

text \<open>
  What the modelled code raises: a failed \<open>typecheck\<close>, a failed \<open>assert\<close>, a
  lookup of a missing key.
\<close>

datatype error = ContractViolation | AssertionError | KeyError

text \<open>
  \<open>SingleProperty\<close>: the \<open>parent\<close> back reference and the numpy copy \<open>array\<close> of
  \<open>data\<close> are left out; no method below reads the first, and the second holds the same
  numbers as \<open>data\<close>.
\<close>

record SingleProperty =
  sp_rundata :: RunData
  sp_data :: "real list"
  sp_property :: string

text \<open>A Python dict is an association list with distinct keys, in insertion order.\<close>

record Single =
  s_rundata :: RunData
  s_properties :: "(string \<times> SingleProperty) list"

record TestedPairProperty =
  tpp_first :: SingleProperty
  tpp_second :: SingleProperty
  tpp_tester :: Tester
  tpp_property :: string

record TestedPair =
  tp_first :: Single
  tp_second :: Single
  tp_tester :: Tester
  tp_properties :: "(string \<times> TestedPairProperty) list"

text \<open>
  The stat objects that implement \<open>eq_except_property\<close>, by class.  These are the
  objects a message can have as its parent; the module gives messages the parents
  \<open>SingleProperty\<close> and \<open>TestedPairProperty\<close> only.
\<close>

datatype StatObject =
    SingleO Single
  | SinglePropertyO SingleProperty
  | TestedPairO TestedPair
  | TestedPairPropertyO TestedPairProperty

subsection \<open>Construction\<close>

text \<open>
  \<open>SingleProperty.__init__\<close> with a \<open>RunData\<close> argument; the lookup
  \<open>data[property]\<close> fails for a property the run does not have.
\<close>

definition SingleProperty_init :: "RunData \<Rightarrow> string \<Rightarrow> error + SingleProperty" where
  "SingleProperty_init data property =
     (case RunData_getitem data property of
        None \<Rightarrow> Inl KeyError
      | Some obs \<Rightarrow> Inr \<lparr>sp_rundata = data, sp_data = obs, sp_property = property\<rparr>)"

text \<open>\<open>d[key] = value\<close> on a dict: replace in place, or append a new key.\<close>

fun dict_set :: "'k \<Rightarrow> 'v \<Rightarrow> ('k \<times> 'v) list \<Rightarrow> ('k \<times> 'v) list" where
  "dict_set k v [] = [(k, v)]"
| "dict_set k v ((k', v') # d) = (if k = k' then (k, v) # d else (k', v') # dict_set k v d)"

definition dict_keys :: "('k \<times> 'v) list \<Rightarrow> 'k list" where
  "dict_keys d = map fst d"

text \<open>
  The loop of \<open>Single.__init__\<close>:
  \<open>for prop in data.properties: self.properties[prop] = SingleProperty(self, self.rundata, prop)\<close>.
\<close>

fun Single_init_loop ::
  "RunData \<Rightarrow> string list \<Rightarrow> (string \<times> SingleProperty) list \<Rightarrow> error + (string \<times> SingleProperty) list"
where
  "Single_init_loop r [] d = Inr d"
| "Single_init_loop r (prop # props) d =
     (case SingleProperty_init r prop of
        Inl e \<Rightarrow> Inl e
      | Inr sp \<Rightarrow> Single_init_loop r props (dict_set prop sp d))"

text \<open>\<open>Single(data)\<close> takes a run, or another \<open>Single\<close> whose run and property names it copies.\<close>

datatype SingleArg = OfRunData RunData | OfSingle Single

definition Single_init :: "SingleArg \<Rightarrow> error + Single" where
  "Single_init data =
     (let rundata = (case data of OfRunData r \<Rightarrow> r | OfSingle s \<Rightarrow> s_rundata s);
          props = (case data of OfRunData r \<Rightarrow> RunData_properties r
                              | OfSingle s \<Rightarrow> dict_keys (s_properties s))
      in case Single_init_loop rundata props [] of
           Inl e \<Rightarrow> Inl e
         | Inr d \<Rightarrow> Inr \<lparr>s_rundata = rundata, s_properties = d\<rparr>)"

text \<open>
  \<open>tester or TesterRegistry.get_for_name(...)\<close>: an absent tester is resolved from the
  process-wide settings, here the parameter \<open>configured\<close>.
\<close>

definition resolve_tester :: "Tester \<Rightarrow> Tester option \<Rightarrow> Tester" where
  "resolve_tester configured tester = (case tester of Some t \<Rightarrow> t | None \<Rightarrow> configured)"

text \<open>
  \<open>TestedPairProperty.__init__\<close>: both wrapped objects are built from the runs of the
  two \<open>Single\<close> arguments.
\<close>

definition TestedPairProperty_init ::
  "Tester \<Rightarrow> Single \<Rightarrow> Single \<Rightarrow> string \<Rightarrow> Tester option \<Rightarrow> error + TestedPairProperty"
where
  "TestedPairProperty_init configured first second property tester =
     (case SingleProperty_init (s_rundata first) property of
        Inl e \<Rightarrow> Inl e
      | Inr f \<Rightarrow>
          (case SingleProperty_init (s_rundata second) property of
             Inl e \<Rightarrow> Inl e
           | Inr s \<Rightarrow>
               Inr \<lparr>tpp_first = f, tpp_second = s,
                    tpp_tester = resolve_tester configured tester,
                    tpp_property = property\<rparr>))"

text \<open>
  The loop of \<open>TestedPair.__init__\<close> over the property names that both samples have.
\<close>

fun TestedPair_init_loop ::
  "Tester \<Rightarrow> Single \<Rightarrow> Single \<Rightarrow> Tester option \<Rightarrow> string list
     \<Rightarrow> (string \<times> TestedPairProperty) list \<Rightarrow> error + (string \<times> TestedPairProperty) list"
where
  "TestedPair_init_loop configured first second tester [] d = Inr d"
| "TestedPair_init_loop configured first second tester (prop # props) d =
     (case TestedPairProperty_init configured first second prop tester of
        Inl e \<Rightarrow> Inl e
      | Inr tpp \<Rightarrow> TestedPair_init_loop configured first second tester props (dict_set prop tpp d))"

text \<open>
  \<open>set(self.first.properties.keys()).intersection(self.second.properties.keys())\<close>,
  listed in the key order of the first sample.  The order in which Python visits this
  set decides only the order of the entries of \<open>self.properties\<close>, not its content.
\<close>

definition shared_keys :: "Single \<Rightarrow> Single \<Rightarrow> string list" where
  "shared_keys first second =
     filter (\<lambda>prop. prop \<in> set (dict_keys (s_properties second))) (dict_keys (s_properties first))"

definition TestedPair_init ::
  "Tester \<Rightarrow> SingleArg \<Rightarrow> SingleArg \<Rightarrow> Tester option \<Rightarrow> error + TestedPair"
where
  "TestedPair_init configured first second tester =
     (case Single_init first of
        Inl e \<Rightarrow> Inl e
      | Inr f \<Rightarrow>
          (case Single_init second of
             Inl e \<Rightarrow> Inl e
           | Inr s \<Rightarrow>
               (case TestedPair_init_loop configured f s tester (shared_keys f s) [] of
                  Inl e \<Rightarrow> Inl e
                | Inr d \<Rightarrow>
                    Inr \<lparr>tp_first = f, tp_second = s,
                         tp_tester = resolve_tester configured tester,
                         tp_properties = d\<rparr>)))"

subsection \<open>Equality except for the property\<close>

definition SingleProperty_eq_except_property :: "SingleProperty \<Rightarrow> StatObject \<Rightarrow> bool" where
  "SingleProperty_eq_except_property self other =
     (case other of SinglePropertyO x \<Rightarrow> sp_rundata self = sp_rundata x | _ \<Rightarrow> False)"

definition Single_eq_except_property :: "Single \<Rightarrow> StatObject \<Rightarrow> bool" where
  "Single_eq_except_property self other =
     (case other of SingleO x \<Rightarrow> s_rundata self = s_rundata x | _ \<Rightarrow> False)"

text \<open>\<open>Single.__eq__\<close> is \<open>eq_except_property\<close>.\<close>

definition Single_eq :: "Single \<Rightarrow> Single \<Rightarrow> bool" where
  "Single_eq self other = Single_eq_except_property self (SingleO other)"

definition TestedPair_eq_except_property :: "TestedPair \<Rightarrow> StatObject \<Rightarrow> bool" where
  "TestedPair_eq_except_property self other =
     (case other of
        TestedPairO x \<Rightarrow>
          Single_eq (tp_first self) (tp_first x) \<and> Single_eq (tp_second self) (tp_second x)
          \<and> tp_tester self = tp_tester x
      | _ \<Rightarrow> False)"

text \<open>
  \<open>TestedPairProperty.eq_except_property\<close>, as written: the middle conjunct is
  \<open>self.first.eq_except_property(self.second)\<close>.
\<close>

definition TestedPairProperty_eq_except_property :: "TestedPairProperty \<Rightarrow> StatObject \<Rightarrow> bool" where
  "TestedPairProperty_eq_except_property self other =
     (case other of
        TestedPairPropertyO x \<Rightarrow>
          SingleProperty_eq_except_property (tpp_first self) (SinglePropertyO (tpp_second self))
          \<and> tpp_tester self = tpp_tester x
      | _ \<Rightarrow> False)"

fun eq_except_property :: "StatObject \<Rightarrow> StatObject \<Rightarrow> bool" where
  "eq_except_property (SingleO self) other = Single_eq_except_property self other"
| "eq_except_property (SinglePropertyO self) other = SingleProperty_eq_except_property self other"
| "eq_except_property (TestedPairO self) other = TestedPair_eq_except_property self other"
| "eq_except_property (TestedPairPropertyO self) other = TestedPairProperty_eq_except_property self other"

section \<open>Diagnostic messages\<close>

text \<open>The message classes of the module, with the class-level constants each one sees.\<close>

datatype MessageClass =
    StatMessage | StatWarning | StatError
  | StdDeviationToHighWarning | StdDeviationToHighError
  | NotEnoughObservationsWarning | NotEnoughObservationsError
  | EffectToSmallWarning | EffectToSmallError

datatype StatMessageType = ERROR | WARNING

text \<open>The method resolution order of each class (itself first), from the class statements.\<close>

fun mro :: "MessageClass \<Rightarrow> MessageClass list" where
  "mro StatMessage = [StatMessage]"
| "mro StatWarning = [StatWarning, StatMessage]"
| "mro StatError = [StatError, StatWarning, StatMessage]"
| "mro StdDeviationToHighWarning = [StdDeviationToHighWarning, StatWarning, StatMessage]"
| "mro StdDeviationToHighError =
     [StdDeviationToHighError, StdDeviationToHighWarning, StatWarning, StatMessage]"
| "mro NotEnoughObservationsWarning = [NotEnoughObservationsWarning, StatWarning, StatMessage]"
| "mro NotEnoughObservationsError =
     [NotEnoughObservationsError, NotEnoughObservationsWarning, StatWarning, StatMessage]"
| "mro EffectToSmallWarning = [EffectToSmallWarning, StatWarning, StatMessage]"
| "mro EffectToSmallError =
     [EffectToSmallError, EffectToSmallWarning, StatWarning, StatMessage]"

fun message_type :: "MessageClass \<Rightarrow> StatMessageType option" where
  "message_type StatMessage = None"
| "message_type StatWarning = Some WARNING"
| "message_type StatError = Some ERROR"
| "message_type StdDeviationToHighWarning = Some WARNING"
| "message_type StdDeviationToHighError = Some ERROR"
| "message_type NotEnoughObservationsWarning = Some WARNING"
| "message_type NotEnoughObservationsError = Some ERROR"
| "message_type EffectToSmallWarning = Some WARNING"
| "message_type EffectToSmallError = Some ERROR"

fun border_value :: "MessageClass \<Rightarrow> number" where
  "border_value StatMessage = Fin 0"
| "border_value StatWarning = Fin 0"
| "border_value StatError = Fin 0"
| "border_value StdDeviationToHighWarning = Fin (1 / 100)"
| "border_value StdDeviationToHighError = Fin (5 / 100)"
| "border_value NotEnoughObservationsWarning = Fin 30"
| "border_value NotEnoughObservationsError = Fin 15"
| "border_value EffectToSmallWarning = Fin 2"
| "border_value EffectToSmallError = Fin 1"

text \<open>
  \<open>check_value\<close>: true when the value is acceptable.  The base classes inherit the
  body \<open>pass\<close>, whose result \<open>None\<close> counts as false in \<open>create_if_valid\<close>.
\<close>

fun check_value :: "MessageClass \<Rightarrow> number \<Rightarrow> bool" where
  "check_value StatMessage v = False"
| "check_value StatWarning v = False"
| "check_value StatError v = False"
| "check_value StdDeviationToHighWarning v = num_le v (border_value StdDeviationToHighWarning)"
| "check_value StdDeviationToHighError v = num_le v (border_value StdDeviationToHighError)"
| "check_value NotEnoughObservationsWarning v = num_ge v (border_value NotEnoughObservationsWarning)"
| "check_value NotEnoughObservationsError v = num_ge v (border_value NotEnoughObservationsError)"
| "check_value EffectToSmallWarning v = num_ge v (border_value EffectToSmallWarning)"
| "check_value EffectToSmallError v = num_ge v (border_value EffectToSmallError)"

record StatMessage =
  msg_class :: MessageClass
  msg_parent :: StatObject
  msg_properties :: "string list"
  msg_values :: "number list"

definition isinstance :: "StatMessage \<Rightarrow> MessageClass \<Rightarrow> bool" where
  "isinstance msg c = (c \<in> set (mro (msg_class msg)))"

text \<open>An argument that is either one item or a list of items.\<close>

datatype 'a arg = One 'a | Many "'a list"

fun as_list :: "'a arg \<Rightarrow> 'a list" where
  "as_list (One x) = [x]"
| "as_list (Many xs) = xs"

text \<open>
  Modelled from the spec: \<open>typecheck\<close> (module \<open>temci.utils.typecheck\<close>) signals
  a contract violation when the value does not match the expected type or constraint;
  \<open>matches\<close> is the outcome of that test.
\<close>

definition typecheck :: "bool \<Rightarrow> error + unit" where
  "typecheck matches = (if matches then Inr () else Inl ContractViolation)"

text \<open>
  \<open>StatMessage.__init__\<close>, for the class \<open>c\<close> being instantiated.  Only the
  property list is sorted.
\<close>

definition StatMessage_init ::
  "MessageClass \<Rightarrow> StatObject \<Rightarrow> string arg \<Rightarrow> number arg \<Rightarrow> error + StatMessage"
where
  "StatMessage_init c parent properties vals =
     (let properties = as_list properties; vals = as_list vals
      in case typecheck (length properties > 0) of
           Inl e \<Rightarrow> Inl e
         | Inr _ \<Rightarrow>
             (case typecheck (length vals = length properties) of
                Inl e \<Rightarrow> Inl e
              | Inr _ \<Rightarrow>
                  Inr \<lparr>msg_class = c, msg_parent = parent,
                       msg_properties = sort properties, msg_values = vals\<rparr>))"

text \<open>\<open>StatMessage.__add__\<close>: the result has the class and the parent of \<open>self\<close>.\<close>

definition add :: "StatMessage \<Rightarrow> StatMessage \<Rightarrow> error + StatMessage" where
  "add self other =
     (case typecheck (isinstance other (msg_class self)) of
        Inl e \<Rightarrow> Inl e
      | Inr _ \<Rightarrow>
          if \<not> eq_except_property (msg_parent self) (msg_parent other) then Inl AssertionError
          else StatMessage_init (msg_class self) (msg_parent self)
                 (Many (msg_properties self @ msg_properties other))
                 (Many (msg_values self @ msg_values other)))"

text \<open>
  \<open>create_if_valid\<close>: nothing when the value is acceptable, a new message otherwise.
  The assertion on the value's type holds for every \<open>number\<close>.
\<close>

definition create_if_valid ::
  "MessageClass \<Rightarrow> StatObject \<Rightarrow> number \<Rightarrow> string arg \<Rightarrow> error + StatMessage option"
where
  "create_if_valid c parent v properties =
     (if check_value c v then Inr None
      else case StatMessage_init c parent properties (One v) of
             Inl e \<Rightarrow> Inl e
           | Inr msg \<Rightarrow> Inr (Some msg))"

text \<open>
  What every message built by the constructor satisfies: a non-empty, sorted property
  list and as many values as properties.
\<close>

definition wf_message :: "StatMessage \<Rightarrow> bool" where
  "wf_message msg =
     (msg_properties msg \<noteq> [] \<and> sorted (msg_properties msg)
      \<and> length (msg_values msg) = length (msg_properties msg))"

text \<open>
  The pairs that \<open>generate_msg_text\<close> reads off a message:
  \<open>zip(self.properties, val_strs)\<close>.
\<close>

definition pairing :: "StatMessage \<Rightarrow> (string \<times> number) list" where
  "pairing msg = zip (msg_properties msg) (msg_values msg)"

section \<open>The combine algorithm\<close>

text \<open>
  \<open>StatMessage\<close> defines neither \<open>__eq__\<close> nor \<open>__hash__\<close>, so the Python set
  \<open>msgs\<close> holds message objects by identity.  A message object is the pair of its
  identity and the message; the set is the list of its members, with distinct identities.
\<close>

type_synonym message_object = "nat \<times> StatMessage"

text \<open>The condition of the inner \<open>if\<close> of the scan (the identity test comes first).\<close>

definition mergeable :: "StatMessage \<Rightarrow> StatMessage \<Rightarrow> bool" where
  "mergeable msg msg2 =
     (eq_except_property (msg_parent msg) (msg_parent msg2) \<and> msg_class msg = msg_class msg2)"

definition set_add :: "message_object \<Rightarrow> message_object list \<Rightarrow> message_object list" where
  "set_add x s = (if fst x \<in> fst ` set s then s else s @ [x])"

definition set_remove :: "message_object \<Rightarrow> message_object list \<Rightarrow> message_object list" where
  "set_remove x s = filter (\<lambda>y. fst y \<noteq> fst x) s"

definition set_of_list :: "message_object list \<Rightarrow> message_object list" where
  "set_of_list xs = foldl (\<lambda>s x. set_add x s) [] xs"

text \<open>
  The order in which a set is iterated is not fixed by the language.  It is the parameter
  \<open>slot\<close>: the members of the set \<open>s\<close> are visited by ascending \<open>slot s\<close> of their
  identity.  \<open>itertools.product(msgs, msgs)\<close> reads the set twice in that same order.
\<close>

definition iteration ::
  "(message_object list \<Rightarrow> nat \<Rightarrow> nat) \<Rightarrow> message_object list \<Rightarrow> message_object list"
where
  "iteration slot s = sort_key (\<lambda>x. slot s (fst x)) s"

text \<open>The \<open>for\<close> loop over the product: the first pair that passes both tests, if any.\<close>

definition find_pair :: "message_object list \<Rightarrow> (message_object \<times> message_object) option" where
  "find_pair l =
     find (\<lambda>(msg, msg2). fst msg \<noteq> fst msg2 \<and> mergeable (snd msg) (snd msg2)) (List.product l l)"

text \<open>The identity of a newly created object differs from that of every live object.\<close>

definition new_id :: "message_object list \<Rightarrow> nat" where
  "new_id s = Suc (foldr max (map fst s) 0)"

text \<open>\<open>msgs.remove(msg); msgs.remove(msg2); msgs.add(msg + msg2)\<close>, given the sum.\<close>

definition replace_pair ::
  "message_object list \<Rightarrow> message_object \<times> message_object \<Rightarrow> StatMessage \<Rightarrow> message_object list"
where
  "replace_pair msgs pair merged =
     set_add (new_id msgs, merged) (set_remove (snd pair) (set_remove (fst pair) msgs))"

text \<open>
  The \<open>while something_changed\<close> loop.  A run that never leaves the loop has the value
  \<open>None\<close>; an exception raised by \<open>msg + msg2\<close> ends it with \<open>Inl\<close>.
\<close>

partial_function (option) combine_loop ::
  "(message_object list \<Rightarrow> nat \<Rightarrow> nat) \<Rightarrow> message_object list
     \<Rightarrow> (error + message_object list) option"
where
  "combine_loop slot msgs =
     (case find_pair (iteration slot msgs) of
        None \<Rightarrow> Some (Inr msgs)
      | Some pair \<Rightarrow>
          (case add (snd (fst pair)) (snd (snd pair)) of
             Inl e \<Rightarrow> Some (Inl e)
           | Inr merged \<Rightarrow> combine_loop slot (replace_pair msgs pair merged)))"

text \<open>\<open>StatMessage.combine\<close>: drop the \<open>None\<close> entries, build the set, loop, list the set.\<close>

definition combine ::
  "(message_object list \<Rightarrow> nat \<Rightarrow> nat) \<Rightarrow> message_object option list
     \<Rightarrow> (error + message_object list) option"
where
  "combine slot messages =
     (case combine_loop slot (set_of_list [msg. Some msg \<leftarrow> messages]) of
        None \<Rightarrow> None
      | Some (Inl e) \<Rightarrow> Some (Inl e)
      | Some (Inr msgs) \<Rightarrow> Some (Inr (iteration slot msgs)))"

section \<open>Statistics and the messages of each stat object\<close>

text \<open>
  \<open>np.mean\<close> and \<open>np.std\<close> of the observations (\<open>std\<close> divides by the count); both
  are nan for an empty sequence.
\<close>

definition SingleProperty_mean :: "SingleProperty \<Rightarrow> real option" where
  "SingleProperty_mean self =
     (if sp_data self = [] then None
      else Some (sum_list (sp_data self) / real (length (sp_data self))))"

definition SingleProperty_std_dev :: "SingleProperty \<Rightarrow> real option" where
  "SingleProperty_std_dev self =
     (case SingleProperty_mean self of
        None \<Rightarrow> None
      | Some m \<Rightarrow>
          Some (sqrt (sum_list (map (\<lambda>x. (x - m)\<^sup>2) (sp_data self)) / real (length (sp_data self)))))"

definition SingleProperty_std_dev_per_mean :: "SingleProperty \<Rightarrow> number" where
  "SingleProperty_std_dev_per_mean self =
     float_div (SingleProperty_std_dev self) (SingleProperty_mean self)"

definition SingleProperty_observations :: "SingleProperty \<Rightarrow> nat" where
  "SingleProperty_observations self = length (sp_data self)"

definition TestedPairProperty_mean_diff :: "TestedPairProperty \<Rightarrow> real option" where
  "TestedPairProperty_mean_diff self =
     float_sub (SingleProperty_mean (tpp_first self)) (SingleProperty_mean (tpp_second self))"

definition TestedPairProperty_max_std_dev :: "TestedPairProperty \<Rightarrow> real option" where
  "TestedPairProperty_max_std_dev self =
     py_max (SingleProperty_mean (tpp_first self)) (SingleProperty_mean (tpp_second self))"

definition TestedPairProperty_mean_diff_per_dev :: "TestedPairProperty \<Rightarrow> number" where
  "TestedPairProperty_mean_diff_per_dev self =
     float_div (TestedPairProperty_mean_diff self) (TestedPairProperty_max_std_dev self)"

text \<open>\<open>TestedPair.swap\<close>: a new pair from the two samples exchanged and \<open>self.tester\<close>.\<close>

definition swap :: "Tester \<Rightarrow> TestedPair \<Rightarrow> error + TestedPair" where
  "swap configured self =
     TestedPair_init configured (OfSingle (tp_second self)) (OfSingle (tp_first self))
       (Some (tp_tester self))"

text \<open>\<open>TestedPair.__getitem__\<close>.\<close>

definition TestedPair_getitem :: "TestedPair \<Rightarrow> string \<Rightarrow> error + TestedPairProperty" where
  "TestedPair_getitem self property =
     (case map_of (tp_properties self) property of None \<Rightarrow> Inl KeyError | Some x \<Rightarrow> Inr x)"

subsection \<open>Results of computations that may raise or not return\<close>

type_synonym 'a result = "(error + 'a) option"

definition bind_result :: "'a result \<Rightarrow> ('a \<Rightarrow> 'b result) \<Rightarrow> 'b result" where
  "bind_result r f = (case r of None \<Rightarrow> None | Some (Inl e) \<Rightarrow> Some (Inl e) | Some (Inr v) \<Rightarrow> f v)"

text \<open>The items of a list display or comprehension are evaluated left to right.\<close>

fun collect :: "'a result list \<Rightarrow> 'a list result" where
  "collect [] = Some (Inr [])"
| "collect (r # rs) =
     bind_result r (\<lambda>v. bind_result (collect rs) (\<lambda>vs. Some (Inr (v # vs))))"

subsection \<open>Message lists\<close>

text \<open>
  The arguments that this module passes to \<open>combine\<close> are pairwise distinct objects;
  \<open>fresh_objects\<close> gives the object at position \<open>i\<close> the identity \<open>i\<close>.
  \<open>combine_messages\<close> is \<open>combine\<close> on such arguments, returning the messages.
\<close>

definition fresh_objects :: "StatMessage option list \<Rightarrow> message_object option list" where
  "fresh_objects messages = map (\<lambda>(i, m). map_option (Pair i) m) (enumerate 0 messages)"

definition combine_messages ::
  "(message_object list \<Rightarrow> nat \<Rightarrow> nat) \<Rightarrow> StatMessage option list \<Rightarrow> StatMessage list result"
where
  "combine_messages slot messages =
     bind_result (combine slot (fresh_objects messages)) (\<lambda>objs. Some (Inr (map snd objs)))"

text \<open>
  \<open>BaseStatObject.get_stat_messages\<close> returns the messages that
  \<open>StatMessage.combine(*self._get_stat_messages())\<close> computed, now or at an earlier
  call.  The functions \<open>X_get_stat_messages\<close> give these messages for each class; the
  field that keeps the list is modelled separately, in the section on the cache.
\<close>

definition SingleProperty__get_stat_messages :: "SingleProperty \<Rightarrow> StatMessage option list result" where
  "SingleProperty__get_stat_messages self =
     collect
       [Some (create_if_valid StdDeviationToHighWarning (SinglePropertyO self)
                (SingleProperty_std_dev_per_mean self) (One (sp_property self))),
        Some (create_if_valid StdDeviationToHighError (SinglePropertyO self)
                (SingleProperty_std_dev_per_mean self) (One (sp_property self))),
        Some (create_if_valid NotEnoughObservationsWarning (SinglePropertyO self)
                (Fin (real (SingleProperty_observations self))) (One (sp_property self))),
        Some (create_if_valid NotEnoughObservationsError (SinglePropertyO self)
                (Fin (real (SingleProperty_observations self))) (One (sp_property self)))]"

definition SingleProperty_get_stat_messages ::
  "(message_object list \<Rightarrow> nat \<Rightarrow> nat) \<Rightarrow> SingleProperty \<Rightarrow> StatMessage list result"
where
  "SingleProperty_get_stat_messages slot self =
     bind_result (SingleProperty__get_stat_messages self) (combine_messages slot)"

definition Single__get_stat_messages ::
  "(message_object list \<Rightarrow> nat \<Rightarrow> nat) \<Rightarrow> Single \<Rightarrow> StatMessage option list result"
where
  "Single__get_stat_messages slot self =
     bind_result
       (collect (map (\<lambda>(prop, sp). SingleProperty_get_stat_messages slot sp) (s_properties self)))
       (\<lambda>lists. Some (Inr (map Some (concat lists))))"

definition Single_get_stat_messages ::
  "(message_object list \<Rightarrow> nat \<Rightarrow> nat) \<Rightarrow> Single \<Rightarrow> StatMessage list result"
where
  "Single_get_stat_messages slot self =
     bind_result (Single__get_stat_messages slot self) (combine_messages slot)"

definition TestedPairProperty__get_stat_messages ::
  "(message_object list \<Rightarrow> nat \<Rightarrow> nat) \<Rightarrow> TestedPairProperty \<Rightarrow> StatMessage option list result"
where
  "TestedPairProperty__get_stat_messages slot self =
     bind_result (SingleProperty_get_stat_messages slot (tpp_first self)) (\<lambda>first_msgs.
     bind_result (SingleProperty_get_stat_messages slot (tpp_second self)) (\<lambda>second_msgs.
     bind_result
       (collect
          [Some (create_if_valid EffectToSmallWarning (TestedPairPropertyO self)
                   (TestedPairProperty_mean_diff_per_dev self) (One (tpp_property self))),
           Some (create_if_valid EffectToSmallError (TestedPairPropertyO self)
                   (TestedPairProperty_mean_diff_per_dev self) (One (tpp_property self)))])
       (\<lambda>effect_msgs. Some (Inr (map Some (first_msgs @ second_msgs) @ effect_msgs)))))"

definition TestedPairProperty_get_stat_messages ::
  "(message_object list \<Rightarrow> nat \<Rightarrow> nat) \<Rightarrow> TestedPairProperty \<Rightarrow> StatMessage list result"
where
  "TestedPairProperty_get_stat_messages slot self =
     bind_result (TestedPairProperty__get_stat_messages slot self) (combine_messages slot)"

definition TestedPair__get_stat_messages ::
  "(message_object list \<Rightarrow> nat \<Rightarrow> nat) \<Rightarrow> TestedPair \<Rightarrow> StatMessage option list result"
where
  "TestedPair__get_stat_messages slot self =
     bind_result
       (collect (map (\<lambda>(prop, tpp). TestedPairProperty_get_stat_messages slot tpp)
                  (tp_properties self)))
       (\<lambda>lists. Some (Inr (map Some (concat lists))))"

definition TestedPair_get_stat_messages ::
  "(message_object list \<Rightarrow> nat \<Rightarrow> nat) \<Rightarrow> TestedPair \<Rightarrow> StatMessage list result"
where
  "TestedPair_get_stat_messages slot self =
     bind_result (TestedPair__get_stat_messages slot self) (combine_messages slot)"

section \<open>The tabular projection\<close>

text \<open>
  A data frame is the list of its columns, each a name with the sequence of the
  \<open>pd.Series\<close> stored under that name in \<open>series_dict\<close>; a column that the dict
  lacks is empty.  What pandas does to align the columns of a frame is not part of
  \<open>stats.py\<close> and not modelled.
\<close>

type_synonym DataFrame = "(string \<times> real list) list"

definition DataFrame_init :: "(string \<times> real list) list \<Rightarrow> string list \<Rightarrow> DataFrame" where
  "DataFrame_init series_dict columns =
     map (\<lambda>c. (c, case map_of series_dict c of Some series \<Rightarrow> series | None \<Rightarrow> [])) columns"

definition column :: "DataFrame \<Rightarrow> string \<Rightarrow> real list option" where
  "column frame name = map_of frame name"

definition Single_get_data_frame :: "Single \<Rightarrow> DataFrame" where
  "Single_get_data_frame self =
     (let series_dict = foldl (\<lambda>d (prop, sp). dict_set prop (sp_data sp) d) [] (s_properties self)
      in DataFrame_init series_dict (sort (dict_keys (s_properties self))))"

text \<open>\<open>str(self.first)\<close> is the description of the run.\<close>

definition SingleProperty_str :: "SingleProperty \<Rightarrow> string" where
  "SingleProperty_str self = run_description (sp_rundata self)"

definition TestedPairProperty_get_data_frame :: "bool \<Rightarrow> TestedPairProperty \<Rightarrow> DataFrame" where
  "TestedPairProperty_get_data_frame show_property self =
     (let column0 = (if show_property
                     then SingleProperty_str (tpp_first self) @ '': '' @ tpp_property self
                     else SingleProperty_str (tpp_first self));
          column1 = (if show_property
                     then SingleProperty_str (tpp_second self) @ '': '' @ tpp_property self
                     else SingleProperty_str (tpp_second self));
          series_dict = dict_set column1 (sp_data (tpp_first self))
                          (dict_set column0 (sp_data (tpp_first self)) [])
      in DataFrame_init series_dict [column0, column1])"

section \<open>The collection of pairs and singles\<close>

record TestedPairsAndSingles =
  singles :: "Single list"
  pairs :: "TestedPair list"

text \<open>
  \<open>get_pair\<close> reads only \<open>self.singles\<close>; the constructor calls it while it fills
  \<open>self.pairs\<close>.  The new pair gets no tester, so the configured one.
\<close>

definition get_pair :: "Tester \<Rightarrow> Single list \<Rightarrow> int \<Rightarrow> int \<Rightarrow> error + TestedPair" where
  "get_pair configured sgls first_id second_id =
     (let l = int (length sgls)
      in if \<not> (0 \<le> first_id \<and> first_id < l \<and> 0 \<le> second_id \<and> second_id < l)
         then Inl AssertionError
         else TestedPair_init configured (OfSingle (sgls ! nat first_id))
                (OfSingle (sgls ! nat second_id)) None)"

fun collect_sums :: "(error + 'a) list \<Rightarrow> error + 'a list" where
  "collect_sums [] = Inr []"
| "collect_sums (x # xs) =
     (case x of
        Inl e \<Rightarrow> Inl e
      | Inr v \<Rightarrow> (case collect_sums xs of Inl e \<Rightarrow> Inl e | Inr vs \<Rightarrow> Inr (v # vs)))"

definition all_pairs :: "Tester \<Rightarrow> Single list \<Rightarrow> error + TestedPair list" where
  "all_pairs configured sgls =
     collect_sums
       (concat (map (\<lambda>i. map (\<lambda>j. get_pair configured sgls (int i) (int j))
                              [i + 1 ..< length sgls])
                    [0 ..< length sgls - 1]))"

definition TestedPairsAndSingles_init ::
  "Tester \<Rightarrow> SingleArg list \<Rightarrow> TestedPair list option \<Rightarrow> error + TestedPairsAndSingles"
where
  "TestedPairsAndSingles_init configured sgls prs =
     (case collect_sums (map Single_init sgls) of
        Inl e \<Rightarrow> Inl e
      | Inr ss \<Rightarrow>
          (if prs = None \<and> length ss > 1
           then (case all_pairs configured ss of
                   Inl e \<Rightarrow> Inl e
                 | Inr ps \<Rightarrow> Inr \<lparr>singles = ss, pairs = ps\<rparr>)
           else Inr \<lparr>singles = ss, pairs = (case prs of Some ps \<Rightarrow> ps | None \<Rightarrow> [])\<rparr>))"

definition number_of_singles :: "TestedPairsAndSingles \<Rightarrow> nat" where
  "number_of_singles self = length (singles self)"

text \<open>
  \<open>TestedPairsAndSingles.properties\<close>: the bare \<open>return\<close> of the first branch returns
  Python's \<open>None\<close>, here \<open>None\<close>; the other branch returns a list.
\<close>

definition TestedPairsAndSingles_properties :: "TestedPairsAndSingles \<Rightarrow> string list option" where
  "TestedPairsAndSingles_properties self =
     (case singles self of
        [] \<Rightarrow> None
      | first # rest \<Rightarrow>
          Some (sorted_list_of_set
                  (foldl (\<lambda>props single. props \<inter> set (dict_keys (s_properties single)))
                         (set (dict_keys (s_properties first))) rest)))"

text \<open>
  \<open>TestedPairsAndSingles.get_stat_messages\<close>: the messages of the pairs, one pair
  after the other.
\<close>

definition TestedPairsAndSingles_get_stat_messages ::
  "(message_object list \<Rightarrow> nat \<Rightarrow> nat) \<Rightarrow> TestedPairsAndSingles \<Rightarrow> StatMessage list result"
where
  "TestedPairsAndSingles_get_stat_messages slot self =
     bind_result (collect (map (TestedPair_get_stat_messages slot) (pairs self)))
       (\<lambda>lists. Some (Inr (concat lists)))"

section \<open>The cache of the message list\<close>

text \<open>
  A list object is the pair of its identity and its items.  The state of the Python
  runtime that matters here is the next unused identity.  \<open>computed\<close> is what
  \<open>StatMessage.combine(*self._get_stat_messages())\<close> evaluates to for the object at
  hand (for example \<open>SingleProperty_get_stat_messages slot sp\<close>); \<open>combine\<close> returns
  a new list object each time.
\<close>

type_synonym list_object = "nat \<times> StatMessage list"

record BaseStatObject =
  stat_messages :: list_object

definition BaseStatObject_init :: "nat \<Rightarrow> BaseStatObject \<times> nat" where
  "BaseStatObject_init fresh = (\<lparr>stat_messages = (fresh, [])\<rparr>, Suc fresh)"

definition BaseStatObject_get_stat_messages ::
  "StatMessage list result \<Rightarrow> BaseStatObject \<times> nat \<Rightarrow> (list_object \<times> BaseStatObject \<times> nat) result"
where
  "BaseStatObject_get_stat_messages computed st =
     (case st of (self, fresh) \<Rightarrow>
        if snd (stat_messages self) = []
        then bind_result computed (\<lambda>msgs.
               Some (Inr ((fresh, msgs), self\<lparr>stat_messages := (fresh, msgs)\<rparr>, Suc fresh)))
        else Some (Inr (stat_messages self, self, fresh)))"

text \<open>
  The override in \<open>TestedPairsAndSingles\<close>: \<open>msgs = []\<close> is a new list object at every
  call, filled from the pairs and returned; the field \<open>_stat_messages\<close> is not touched.
  \<open>computed\<close> is \<open>TestedPairsAndSingles_get_stat_messages slot c\<close> for the collection.
\<close>

definition TestedPairsAndSingles_get_stat_messages_object ::
  "StatMessage list result \<Rightarrow> BaseStatObject \<times> nat \<Rightarrow> (list_object \<times> BaseStatObject \<times> nat) result"
where
  "TestedPairsAndSingles_get_stat_messages_object computed st =
     (case st of (self, fresh) \<Rightarrow>
        bind_result computed (\<lambda>msgs. Some (Inr ((fresh, msgs), self, Suc fresh))))"

section \<open>Concrete inputs\<close>

text \<open>A run with 10 observations of \<open>time\<close> and 20 of \<open>memory\<close>, and its messages.\<close>

definition run_r :: RunData where
  "run_r = \<lparr>run_id = 1, run_description = ''r'',
            run_data = [(''time'', replicate 10 1), (''memory'', replicate 20 1)]\<rparr>"

definition sp_time :: SingleProperty where
  "sp_time = \<lparr>sp_rundata = run_r, sp_data = replicate 10 1, sp_property = ''time''\<rparr>"

definition sp_memory :: SingleProperty where
  "sp_memory = \<lparr>sp_rundata = run_r, sp_data = replicate 20 1, sp_property = ''memory''\<rparr>"

definition warning_time :: StatMessage where
  "warning_time =
     \<lparr>msg_class = NotEnoughObservationsWarning, msg_parent = SinglePropertyO sp_time,
      msg_properties = [''time''], msg_values = [Fin 10]\<rparr>"

definition warning_memory :: StatMessage where
  "warning_memory =
     \<lparr>msg_class = NotEnoughObservationsWarning, msg_parent = SinglePropertyO sp_memory,
      msg_properties = [''memory''], msg_values = [Fin 20]\<rparr>"

definition error_time :: StatMessage where
  "error_time =
     \<lparr>msg_class = NotEnoughObservationsError, msg_parent = SinglePropertyO sp_time,
      msg_properties = [''time''], msg_values = [Fin 10]\<rparr>"

definition warning_sum :: StatMessage where
  "warning_sum =
     \<lparr>msg_class = NotEnoughObservationsWarning, msg_parent = SinglePropertyO sp_time,
      msg_properties = [''memory'', ''time''], msg_values = [Fin 10, Fin 20]\<rparr>"

text \<open>An iteration order: by ascending identity.\<close>

definition by_identity :: "message_object list \<Rightarrow> nat \<Rightarrow> nat" where
  "by_identity s i = i"

text \<open>Another one: by descending identity.\<close>

definition by_descending_identity :: "message_object list \<Rightarrow> nat \<Rightarrow> nat" where
  "by_descending_identity s i = 100 - i"

definition example_messages :: "message_object option list" where
  "example_messages = [Some (0, warning_time), None, Some (1, error_time), Some (2, warning_memory)]"

definition example_set :: "message_object list" where
  "example_set = [(0, warning_time), (1, error_time), (2, warning_memory)]"

definition example_out :: "message_object list" where
  "example_out = [(1, error_time), (3, warning_sum)]"

text \<open>Two runs with the properties \<open>time\<close> and \<open>memory\<close>, their samples and comparisons.\<close>

definition run_a :: RunData where
  "run_a = \<lparr>run_id = 2, run_description = ''a'',
            run_data = [(''time'', [1, 2]), (''memory'', [5])]\<rparr>"

definition run_b :: RunData where
  "run_b = \<lparr>run_id = 3, run_description = ''b'',
            run_data = [(''time'', [3, 4]), (''memory'', [6])]\<rparr>"

definition tester_t :: Tester where
  "tester_t = Tester ''t''"

definition single_a :: Single where
  "single_a =
     \<lparr>s_rundata = run_a,
      s_properties =
        [(''time'', \<lparr>sp_rundata = run_a, sp_data = [1, 2], sp_property = ''time''\<rparr>),
         (''memory'', \<lparr>sp_rundata = run_a, sp_data = [5], sp_property = ''memory''\<rparr>)]\<rparr>"

definition single_b :: Single where
  "single_b =
     \<lparr>s_rundata = run_b,
      s_properties =
        [(''time'', \<lparr>sp_rundata = run_b, sp_data = [3, 4], sp_property = ''time''\<rparr>),
         (''memory'', \<lparr>sp_rundata = run_b, sp_data = [6], sp_property = ''memory''\<rparr>)]\<rparr>"

definition pair_time :: TestedPairProperty where
  "pair_time =
     \<lparr>tpp_first = \<lparr>sp_rundata = run_a, sp_data = [1, 2], sp_property = ''time''\<rparr>,
      tpp_second = \<lparr>sp_rundata = run_b, sp_data = [3, 4], sp_property = ''time''\<rparr>,
      tpp_tester = tester_t, tpp_property = ''time''\<rparr>"

definition pair_memory :: TestedPairProperty where
  "pair_memory =
     \<lparr>tpp_first = \<lparr>sp_rundata = run_a, sp_data = [5], sp_property = ''memory''\<rparr>,
      tpp_second = \<lparr>sp_rundata = run_b, sp_data = [6], sp_property = ''memory''\<rparr>,
      tpp_tester = tester_t, tpp_property = ''memory''\<rparr>"

text \<open>Comparisons of a run with itself.\<close>

definition pair_aa :: TestedPairProperty where
  "pair_aa =
     \<lparr>tpp_first = \<lparr>sp_rundata = run_a, sp_data = [1, 2], sp_property = ''time''\<rparr>,
      tpp_second = \<lparr>sp_rundata = run_a, sp_data = [1, 2], sp_property = ''time''\<rparr>,
      tpp_tester = tester_t, tpp_property = ''time''\<rparr>"

definition pair_bb :: TestedPairProperty where
  "pair_bb =
     \<lparr>tpp_first = \<lparr>sp_rundata = run_b, sp_data = [3, 4], sp_property = ''time''\<rparr>,
      tpp_second = \<lparr>sp_rundata = run_b, sp_data = [3, 4], sp_property = ''time''\<rparr>,
      tpp_tester = tester_t, tpp_property = ''time''\<rparr>"

definition tested_pair_ab :: TestedPair where
  "tested_pair_ab =
     \<lparr>tp_first = single_a, tp_second = single_b, tp_tester = tester_t,
      tp_properties = [(''time'', pair_time), (''memory'', pair_memory)]\<rparr>"

text \<open>
  A run with 10 observations of \<open>time\<close>, one with 50, and what is built from each.
\<close>

definition run_10 :: RunData where
  "run_10 = \<lparr>run_id = 4, run_description = ''ten'', run_data = [(''time'', replicate 10 1)]\<rparr>"

definition sp_10 :: SingleProperty where
  "sp_10 = \<lparr>sp_rundata = run_10, sp_data = replicate 10 1, sp_property = ''time''\<rparr>"

definition single_10 :: Single where
  "single_10 = \<lparr>s_rundata = run_10, s_properties = [(''time'', sp_10)]\<rparr>"

definition collection_10 :: TestedPairsAndSingles where
  "collection_10 = \<lparr>singles = [single_10], pairs = []\<rparr>"

definition warning_10 :: StatMessage where
  "warning_10 =
     \<lparr>msg_class = NotEnoughObservationsWarning, msg_parent = SinglePropertyO sp_10,
      msg_properties = [''time''], msg_values = [Fin 10]\<rparr>"

definition error_10 :: StatMessage where
  "error_10 =
     \<lparr>msg_class = NotEnoughObservationsError, msg_parent = SinglePropertyO sp_10,
      msg_properties = [''time''], msg_values = [Fin 10]\<rparr>"

definition run_50 :: RunData where
  "run_50 = \<lparr>run_id = 5, run_description = ''fifty'', run_data = [(''time'', replicate 50 1)]\<rparr>"

definition sp_50 :: SingleProperty where
  "sp_50 = \<lparr>sp_rundata = run_50, sp_data = replicate 50 1, sp_property = ''time''\<rparr>"

definition single_50 :: Single where
  "single_50 = \<lparr>s_rundata = run_50, s_properties = [(''time'', sp_50)]\<rparr>"

definition collection_50 :: TestedPairsAndSingles where
  "collection_50 = \<lparr>singles = [single_50], pairs = []\<rparr>"

text \<open>Three samples with the property sets \<open>{a, b}\<close>, \<open>{b, c}\<close> and \<open>{b}\<close>.\<close>

definition run_ab :: RunData where
  "run_ab = \<lparr>run_id = 6, run_description = ''ab'', run_data = [(''a'', [1]), (''b'', [2])]\<rparr>"

definition run_bc :: RunData where
  "run_bc = \<lparr>run_id = 7, run_description = ''bc'', run_data = [(''b'', [3]), (''c'', [4])]\<rparr>"

definition run_only_b :: RunData where
  "run_only_b = \<lparr>run_id = 8, run_description = ''b'', run_data = [(''b'', [5])]\<rparr>"

section \<open>Properties of messages and of combine\<close>

lemma sort_eq_Nil [simp]: "(sort xs = []) = (xs = [])"
  by (metis length_sort length_0_conv)

lemma init_wf: "StatMessage_init c p props vals = Inr m \<Longrightarrow> wf_message m"
  by (auto simp: StatMessage_init_def typecheck_def wf_message_def Let_def split: if_splits)

lemma add_fields:
  "add a b = Inr m \<Longrightarrow>
     msg_class m = msg_class a \<and> msg_parent m = msg_parent a
     \<and> msg_properties m = sort (msg_properties a @ msg_properties b)
     \<and> msg_values m = msg_values a @ msg_values b"
  by (auto simp: add_def typecheck_def StatMessage_init_def Let_def split: if_splits)

lemma add_wf: "add a b = Inr m \<Longrightarrow> wf_message m"
  by (auto simp: add_def typecheck_def dest: init_wf split: if_splits)

lemma find_Some_in: "find P xs = Some x \<Longrightarrow> x \<in> set xs \<and> P x"
  by (induction xs) (auto split: if_splits)

lemma find_pair_Some:
  "find_pair l = Some (a, b) \<Longrightarrow>
     a \<in> set l \<and> b \<in> set l \<and> fst a \<noteq> fst b \<and> mergeable (snd a) (snd b)"
  unfolding find_pair_def by (auto dest: find_Some_in)

lemma find_pair_None:
  "find_pair l = None \<longleftrightarrow>
     (\<forall>a\<in>set l. \<forall>b\<in>set l. fst a \<noteq> fst b \<longrightarrow> \<not> mergeable (snd a) (snd b))"
  unfolding find_pair_def by (fastforce simp: find_None_iff)

lemma set_iteration [simp]: "set (iteration slot s) = set s"
  by (simp add: iteration_def)

lemma mset_iteration [simp]: "mset (iteration slot s) = mset s"
  by (simp add: iteration_def)

lemma length_iteration [simp]: "length (iteration slot s) = length s"
  by (simp add: iteration_def)

lemma ids_iteration: "distinct (map fst (iteration slot s)) = distinct (map fst s)"
  by (metis mset_iteration mset_map mset_eq_imp_distinct_iff)

lemma length_set_remove: "x \<in> set s \<Longrightarrow> length (set_remove x s) < length s"
  unfolding set_remove_def by (simp add: length_filter_less[of x])

lemma set_set_remove: "set (set_remove x s) = {y \<in> set s. fst y \<noteq> fst x}"
  by (auto simp: set_remove_def)

lemma length_set_add: "length (set_add x s) \<le> Suc (length s)"
  by (simp add: set_add_def)

lemma replace_pair_shorter:
  assumes "a \<in> set s" "b \<in> set s" "fst a \<noteq> fst b"
  shows "length (replace_pair s (a, b) m) < length s"
proof -
  have 1: "length (set_remove a s) < length s"
    using assms(1) by (rule length_set_remove)
  have "b \<in> set (set_remove a s)"
    using assms by (simp add: set_set_remove)
  then have 2: "length (set_remove b (set_remove a s)) < length (set_remove a s)"
    by (rule length_set_remove)
  have "length (replace_pair s (a, b) m) \<le> Suc (length (set_remove b (set_remove a s)))"
    by (simp add: replace_pair_def length_set_add)
  with 1 2 show ?thesis by linarith
qed

lemma combine_loop_returns: "\<exists>r. combine_loop slot msgs = Some r"
proof (induction msgs rule: measure_induct_rule[where f = length])
  case (less msgs)
  show ?case
  proof (cases "find_pair (iteration slot msgs)")
    case None
    then show ?thesis by (subst combine_loop.simps) simp
  next
    case (Some pair)
    obtain a b where pair: "pair = (a, b)" by (cases pair)
    from Some pair have ab: "a \<in> set msgs" "b \<in> set msgs" "fst a \<noteq> fst b"
      using find_pair_Some[of "iteration slot msgs" a b] by auto
    show ?thesis
    proof (cases "add (snd a) (snd b)")
      case (Inl e)
      with Some pair show ?thesis by (subst combine_loop.simps) simp
    next
      case (Inr merged)
      have "length (replace_pair msgs (a, b) merged) < length msgs"
        using ab by (rule replace_pair_shorter)
      from less.IH[OF this] obtain r where "combine_loop slot (replace_pair msgs (a, b) merged) = Some r" ..
      with Some pair Inr show ?thesis by (subst combine_loop.simps) simp
    qed
  qed
qed

lemma le_foldr_max: "x \<in> set xs \<Longrightarrow> x \<le> foldr max xs (0::nat)"
  by (induction xs) (auto simp: max_def)

lemma new_id_fresh: "new_id s \<notin> fst ` set s"
proof
  assume "new_id s \<in> fst ` set s"
  then have "new_id s \<in> set (map fst s)" by simp
  then have "new_id s \<le> foldr max (map fst s) 0" by (rule le_foldr_max)
  then show False by (simp add: new_id_def)
qed

lemma distinct_set_remove: "distinct (map fst s) \<Longrightarrow> distinct (map fst (set_remove x s))"
  by (simp add: set_remove_def distinct_map_filter)

lemma distinct_set_add: "distinct (map fst s) \<Longrightarrow> distinct (map fst (set_add x s))"
  by (auto simp: set_add_def)

lemma distinct_set_of_list_aux:
  "distinct (map fst acc) \<Longrightarrow> distinct (map fst (foldl (\<lambda>s x. set_add x s) acc xs))"
  by (induction xs arbitrary: acc) (simp_all add: distinct_set_add)

lemma distinct_set_of_list: "distinct (map fst (set_of_list xs))"
  by (simp add: set_of_list_def distinct_set_of_list_aux)

lemma set_of_list_distinct_aux:
  "distinct (map fst (acc @ xs)) \<Longrightarrow> foldl (\<lambda>s x. set_add x s) acc xs = acc @ xs"
proof (induction xs arbitrary: acc)
  case Nil then show ?case by simp
next
  case (Cons x xs)
  have "set_add x acc = acc @ [x]" using Cons.prems by (auto simp: set_add_def)
  moreover have "distinct (map fst ((acc @ [x]) @ xs))" using Cons.prems by simp
  ultimately show ?case using Cons.IH[of "acc @ [x]"] by simp
qed

lemma set_of_list_distinct: "distinct (map fst xs) \<Longrightarrow> set_of_list xs = xs"
  using set_of_list_distinct_aux[of "[]" xs] by (simp add: set_of_list_def)

lemma distinct_replace_pair:
  "distinct (map fst s) \<Longrightarrow> distinct (map fst (replace_pair s pair m))"
  by (simp add: replace_pair_def distinct_set_add distinct_set_remove)

lemma length_set_remove_distinct:
  assumes "distinct (map fst s)" "x \<in> set s"
  shows "Suc (length (set_remove x s)) = length s"
  using assms
proof (induction s)
  case Nil then show ?case by simp
next
  case (Cons y s)
  show ?case
  proof (cases "x = y")
    case True
    have "\<forall>z\<in>set s. fst z \<noteq> fst y" using Cons.prems(1) by (auto simp: image_iff)
    then have "filter (\<lambda>z. fst z \<noteq> fst y) s = s" by (simp add: filter_id_conv)
    with True show ?thesis by (simp add: set_remove_def)
  next
    case False
    then have xs: "x \<in> set s" using Cons.prems(2) by simp
    then have "fst y \<noteq> fst x" using Cons.prems(1) by (auto simp: image_iff)
    moreover have "Suc (length (set_remove x s)) = length s"
      using Cons.IH xs Cons.prems(1) by simp
    ultimately show ?thesis by (simp add: set_remove_def)
  qed
qed

lemma replace_pair_length:
  assumes d: "distinct (map fst s)" and ab: "a \<in> set s" "b \<in> set s" "fst a \<noteq> fst b"
  shows "Suc (length (replace_pair s (a, b) m)) = length s"
proof -
  have 1: "Suc (length (set_remove a s)) = length s"
    using d ab(1) by (rule length_set_remove_distinct)
  have "b \<in> set (set_remove a s)" using ab by (simp add: set_set_remove)
  then have 2: "Suc (length (set_remove b (set_remove a s))) = length (set_remove a s)"
    using distinct_set_remove[OF d] by (intro length_set_remove_distinct) auto
  have "new_id s \<notin> fst ` set (set_remove b (set_remove a s))"
    using new_id_fresh[of s] by (auto simp: set_set_remove)
  then have "length (replace_pair s (a, b) m) = Suc (length (set_remove b (set_remove a s)))"
    by (simp add: replace_pair_def set_add_def)
  with 1 2 show ?thesis by simp
qed

lemma combine_loop_fixed:
  "find_pair (iteration slot s) = None \<Longrightarrow> combine_loop slot s = Some (Inr s)"
  by (subst combine_loop.simps) simp

lemma combine_loop_result:
  "combine_loop slot msgs = Some (Inr out) \<Longrightarrow> distinct (map fst msgs) \<Longrightarrow>
     distinct (map fst out) \<and> find_pair (iteration slot out) = None"
proof (induction msgs rule: measure_induct_rule[where f = length])
  case (less msgs)
  show ?case
  proof (cases "find_pair (iteration slot msgs)")
    case None
    then have "combine_loop slot msgs = Some (Inr msgs)" by (rule combine_loop_fixed)
    with less.prems None show ?thesis by simp
  next
    case (Some pair)
    obtain a b where pair: "pair = (a, b)" by (cases pair)
    from Some pair have ab: "a \<in> set msgs" "b \<in> set msgs" "fst a \<noteq> fst b"
      using find_pair_Some[of "iteration slot msgs" a b] by auto
    show ?thesis
    proof (cases "add (snd a) (snd b)")
      case (Inl e)
      with Some pair have "combine_loop slot msgs = Some (Inl e)"
        by (subst combine_loop.simps) simp
      with less.prems show ?thesis by simp
    next
      case (Inr merged)
      let ?next = "replace_pair msgs (a, b) merged"
      have "combine_loop slot msgs = combine_loop slot ?next"
        using Some pair Inr by (subst combine_loop.simps) simp
      then have "combine_loop slot ?next = Some (Inr out)" using less.prems(1) by simp
      moreover have "length ?next < length msgs" using ab by (rule replace_pair_shorter)
      moreover have "distinct (map fst ?next)" using less.prems(2) by (rule distinct_replace_pair)
      ultimately show ?thesis using less.IH by blast
    qed
  qed
qed

lemma class_in_mro: "c \<in> set (mro c)"
  by (cases c) simp_all

lemma add_mergeable_wf:
  assumes "mergeable a b" "wf_message a" "wf_message b"
  shows "\<exists>m. add a b = Inr m \<and> wf_message m"
proof -
  have "isinstance b (msg_class a)"
    using assms(1) class_in_mro[of "msg_class b"] by (simp add: mergeable_def isinstance_def)
  moreover have "eq_except_property (msg_parent a) (msg_parent b)"
    using assms(1) by (simp add: mergeable_def)
  moreover have "msg_properties a @ msg_properties b \<noteq> []"
    using assms(2) by (simp add: wf_message_def)
  moreover have "length (msg_values a @ msg_values b) = length (msg_properties a @ msg_properties b)"
    using assms(2,3) by (simp add: wf_message_def)
  ultimately obtain m where "add a b = Inr m"
    by (simp add: add_def typecheck_def StatMessage_init_def Let_def)
  then show ?thesis using add_wf by blast
qed

lemma wf_replace_pair:
  "\<forall>x\<in>set s. wf_message (snd x) \<Longrightarrow> wf_message m \<Longrightarrow>
     \<forall>x\<in>set (replace_pair s pair m). wf_message (snd x)"
  by (auto simp: replace_pair_def set_add_def set_remove_def)

lemma combine_loop_wf:
  "\<forall>x\<in>set msgs. wf_message (snd x) \<Longrightarrow>
     \<exists>out. combine_loop slot msgs = Some (Inr out) \<and> (\<forall>x\<in>set out. wf_message (snd x))"
proof (induction msgs rule: measure_induct_rule[where f = length])
  case (less msgs)
  show ?case
  proof (cases "find_pair (iteration slot msgs)")
    case None
    then have "combine_loop slot msgs = Some (Inr msgs)" by (rule combine_loop_fixed)
    with less.prems show ?thesis by simp
  next
    case (Some pair)
    obtain a b where pair: "pair = (a, b)" by (cases pair)
    from Some pair have ab: "a \<in> set msgs" "b \<in> set msgs" "fst a \<noteq> fst b"
      and mg: "mergeable (snd a) (snd b)"
      using find_pair_Some[of "iteration slot msgs" a b] by auto
    from ab less.prems have "wf_message (snd a)" "wf_message (snd b)" by auto
    with mg obtain merged where m: "add (snd a) (snd b) = Inr merged" "wf_message merged"
      using add_mergeable_wf by blast
    let ?next = "replace_pair msgs (a, b) merged"
    have eq: "combine_loop slot msgs = combine_loop slot ?next"
      using Some pair m(1) by (subst combine_loop.simps) simp
    have "length ?next < length msgs" using ab by (rule replace_pair_shorter)
    moreover have "\<forall>x\<in>set ?next. wf_message (snd x)"
      using less.prems m(2) by (rule wf_replace_pair)
    ultimately show ?thesis using less.IH eq by metis
  qed
qed

lemma set_set_of_list_aux:
  "set (foldl (\<lambda>s x. set_add x s) acc xs) \<subseteq> set acc \<union> set xs"
proof (induction xs arbitrary: acc)
  case Nil then show ?case by simp
next
  case (Cons x xs)
  have "set (set_add x acc) \<subseteq> set acc \<union> {x}" by (auto simp: set_add_def)
  with Cons.IH[of "set_add x acc"] show ?case by auto
qed

lemma set_set_of_list: "set (set_of_list xs) \<subseteq> set xs"
  using set_set_of_list_aux[of "[]" xs] by (simp add: set_of_list_def)

lemma somes_map_Some: "[msg. Some msg \<leftarrow> map Some xs] = xs"
  by (induction xs) simp_all

lemma set_somes: "set [msg. Some msg \<leftarrow> xs] = {m. Some m \<in> set xs}"
  by (induction xs) (auto split: option.splits)

lemma combine_loop_step:
  "find_pair (iteration slot msgs) = Some pair \<Longrightarrow>
   add (snd (fst pair)) (snd (snd pair)) = Inr merged \<Longrightarrow>
     combine_loop slot msgs = combine_loop slot (replace_pair msgs pair merged)"
  by (subst combine_loop.simps) simp

subsection \<open>The example messages\<close>

lemma sp_time_init: "SingleProperty_init run_r ''time'' = Inr sp_time"
  by (simp add: SingleProperty_init_def run_r_def RunData_getitem_def sp_time_def)

lemma sp_memory_init: "SingleProperty_init run_r ''memory'' = Inr sp_memory"
  by (simp add: SingleProperty_init_def run_r_def RunData_getitem_def sp_memory_def)

lemma warning_time_init:
  "StatMessage_init NotEnoughObservationsWarning (SinglePropertyO sp_time) (One ''time'') (One (Fin 10))
     = Inr warning_time"
  by (simp add: StatMessage_init_def typecheck_def warning_time_def)

lemma add_example: "add warning_time warning_memory = Inr warning_sum"
  by (simp add: add_def typecheck_def isinstance_def warning_time_def warning_memory_def warning_sum_def
      SingleProperty_eq_except_property_def sp_time_def sp_memory_def StatMessage_init_def typecheck_def)

lemma example_wf: "wf_message warning_time" "wf_message warning_memory" "wf_message error_time"
  by (simp_all add: wf_message_def warning_time_def warning_memory_def error_time_def)

lemma example_mergeable:
  "mergeable warning_time warning_memory"
  "\<not> mergeable warning_time error_time"
  "\<not> mergeable error_time warning_sum"
  "\<not> mergeable warning_sum error_time"
  by (simp_all add: mergeable_def warning_time_def warning_memory_def error_time_def
      warning_sum_def SingleProperty_eq_except_property_def sp_time_def sp_memory_def)

lemma example_scan:
  "find_pair (iteration by_identity example_set) = Some ((0, warning_time), (2, warning_memory))"
  by (simp add: example_set_def find_pair_def iteration_def by_identity_def example_mergeable)

lemma example_replace:
  "replace_pair example_set ((0, warning_time), (2, warning_memory)) warning_sum = example_out"
  by (simp add: example_set_def example_out_def replace_pair_def set_add_def set_remove_def new_id_def)

lemma example_scan_out: "find_pair (iteration by_identity example_out) = None"
  by (simp add: example_out_def find_pair_def iteration_def by_identity_def example_mergeable)

lemma example_loop: "combine_loop by_identity example_set = Some (Inr example_out)"
  using combine_loop_step[OF example_scan, of warning_sum] add_example example_replace
    combine_loop_fixed[OF example_scan_out]
  by simp

lemma example_combine: "combine by_identity example_messages = Some (Inr example_out)"
proof -
  have "set_of_list [msg. Some msg \<leftarrow> example_messages] = example_set"
    by (simp add: example_messages_def example_set_def set_of_list_def set_add_def)
  moreover have "iteration by_identity example_out = example_out"
    by (simp add: example_out_def iteration_def by_identity_def)
  ultimately show ?thesis
    by (simp only: combine_def example_loop option.case sum.case)
qed

subsection \<open>Claims about messages and combine\<close>

text \<open>
  C10.  A message that the constructor returns, and a message that the merge operator
  returns, has a property list that is non-empty and sorted and a value list of the
  length of the property list.
\<close>

theorem message_invariant:
  "(StatMessage_init c parent properties vals = Inr msg \<longrightarrow> wf_message msg)
   \<and> (add a b = Inr msg' \<longrightarrow> wf_message msg')"
  using init_wf add_wf by blast

theorem message_invariant_witness:
  "StatMessage_init NotEnoughObservationsWarning (SinglePropertyO sp_time) (One ''time'') (One (Fin 10))
     = Inr warning_time
   \<and> wf_message warning_time
   \<and> add warning_time warning_memory = Inr warning_sum
   \<and> wf_message warning_sum"
  using message_invariant[of NotEnoughObservationsWarning "SinglePropertyO sp_time" "One ''time''"
      "One (Fin 10)" warning_time warning_time warning_memory warning_sum]
    warning_time_init add_example
  by simp

text \<open>
  C1.  The sum of two messages has the sorted concatenation of the two property lists,
  but its value list is the concatenation of the two value lists as they were: the
  values do not follow their properties through the sort.  The sum of the warning about
  \<open>time\<close> (10 observations) and the warning about \<open>memory\<close> (20 observations) pairs
  \<open>memory\<close> with 10 and \<open>time\<close> with 20.
\<close>

theorem add_separates_values_from_properties:
  "add warning_time warning_memory = Inr warning_sum
   \<and> msg_properties warning_sum = sort (msg_properties warning_time @ msg_properties warning_memory)
   \<and> pairing warning_time = [(''time'', Fin 10)]
   \<and> pairing warning_memory = [(''memory'', Fin 20)]
   \<and> pairing warning_sum = [(''memory'', Fin 10), (''time'', Fin 20)]"
  using add_example
  by (simp add: pairing_def warning_time_def warning_memory_def warning_sum_def)

text \<open>
  C3.  For every list of optional messages and every iteration order, \<open>combine\<close>
  leaves its loop: it returns a list or raises.  It returns a list when every message
  of the input is well formed.  One round of the loop that finds a pair makes the set
  smaller by exactly one message.
\<close>

theorem combine_terminates:
  "(\<exists>r. combine slot messages = Some r)
   \<and> (list_all (\<lambda>m. wf_message (snd m)) [msg. Some msg \<leftarrow> messages]
        \<longrightarrow> (\<exists>out. combine slot messages = Some (Inr out)))
   \<and> (distinct (map fst msgs) \<and> find_pair (iteration slot msgs) = Some pair
        \<longrightarrow> Suc (length (replace_pair msgs pair merged)) = length msgs)"
proof (intro conjI impI)
  obtain r where "combine_loop slot (set_of_list [msg. Some msg \<leftarrow> messages]) = Some r"
    using combine_loop_returns by blast
  then show "\<exists>r. combine slot messages = Some r"
    by (cases r) (simp_all add: combine_def)
next
  assume "list_all (\<lambda>m. wf_message (snd m)) [msg. Some msg \<leftarrow> messages]"
  then have "\<forall>x\<in>set (set_of_list [msg. Some msg \<leftarrow> messages]). wf_message (snd x)"
    using set_set_of_list[of "[msg. Some msg \<leftarrow> messages]"] by (auto simp: list_all_iff)
  then obtain out where "combine_loop slot (set_of_list [msg. Some msg \<leftarrow> messages]) = Some (Inr out)"
    using combine_loop_wf by blast
  then show "\<exists>out. combine slot messages = Some (Inr out)"
    by (simp add: combine_def)
next
  assume a: "distinct (map fst msgs) \<and> find_pair (iteration slot msgs) = Some pair"
  obtain x y where pair: "pair = (x, y)" by (cases pair)
  with a have "x \<in> set msgs" "y \<in> set msgs" "fst x \<noteq> fst y"
    using find_pair_Some[of "iteration slot msgs" x y] by auto
  with a pair show "Suc (length (replace_pair msgs pair merged)) = length msgs"
    using replace_pair_length by blast
qed

theorem combine_terminates_witness:
  "list_all (\<lambda>m. wf_message (snd m)) [msg. Some msg \<leftarrow> example_messages]
   \<and> distinct (map fst example_set)
   \<and> find_pair (iteration by_identity example_set) = Some ((0, warning_time), (2, warning_memory))
   \<and> (\<exists>out. combine by_identity example_messages = Some (Inr out))
   \<and> Suc (length (replace_pair example_set ((0, warning_time), (2, warning_memory)) warning_sum))
       = length example_set"
proof -
  have 1: "list_all (\<lambda>m. wf_message (snd m)) [msg. Some msg \<leftarrow> example_messages]"
    by (simp add: example_messages_def example_wf)
  have 2: "distinct (map fst example_set)"
    by (simp add: example_set_def)
  show ?thesis
    using combine_terminates[of by_identity example_messages example_set
        "((0, warning_time), (2, warning_memory))" warning_sum]
      1 2 example_scan
    by blast
qed

text \<open>
  C2.  When \<open>combine\<close> returns a list, no two distinct messages of that list are of
  the same class with parents equal except for the property, and \<open>combine\<close> applied
  to that list, under any iteration order, returns the same multiset of message objects.
\<close>

theorem combine_idempotent:
  assumes "combine slot messages = Some (Inr out)"
  shows "(\<exists>out'. combine slot' (map Some out) = Some (Inr out') \<and> mset out' = mset out)
         \<and> (\<forall>a\<in>set out. \<forall>b\<in>set out. fst a \<noteq> fst b \<longrightarrow> \<not> mergeable (snd a) (snd b))"
proof -
  let ?s = "set_of_list [msg. Some msg \<leftarrow> messages]"
  from assms obtain msgs where loop: "combine_loop slot ?s = Some (Inr msgs)"
    and out: "out = iteration slot msgs"
    by (auto simp: combine_def split: option.splits sum.splits)
  have "distinct (map fst ?s)" by (rule distinct_set_of_list)
  with loop have d: "distinct (map fst msgs)" and n: "find_pair (iteration slot msgs) = None"
    using combine_loop_result by blast+
  have free: "\<forall>a\<in>set out. \<forall>b\<in>set out. fst a \<noteq> fst b \<longrightarrow> \<not> mergeable (snd a) (snd b)"
    using n out by (simp add: find_pair_None)
  have "distinct (map fst out)" using d out by (simp add: ids_iteration)
  then have s: "set_of_list [msg. Some msg \<leftarrow> map Some out] = out"
    by (simp only: somes_map_Some set_of_list_distinct)
  have "find_pair (iteration slot' out) = None"
    using free by (simp add: find_pair_None)
  then have "combine_loop slot' out = Some (Inr out)" by (rule combine_loop_fixed)
  with s have "combine slot' (map Some out) = Some (Inr (iteration slot' out))"
    by (simp add: combine_def)
  then show ?thesis using free by simp
qed

theorem combine_idempotent_witness:
  "combine by_identity example_messages = Some (Inr example_out)
   \<and> (1, error_time) \<in> set example_out \<and> (3, warning_sum) \<in> set example_out
   \<and> fst (1 :: nat, error_time) \<noteq> fst (3 :: nat, warning_sum)
   \<and> \<not> mergeable (snd (1 :: nat, error_time)) (snd (3 :: nat, warning_sum))
   \<and> (\<exists>out'. combine by_descending_identity (map Some example_out) = Some (Inr out')
          \<and> mset out' = mset example_out)"
proof -
  have "(1, error_time) \<in> set example_out" "(3, warning_sum) \<in> set example_out"
    by (simp_all add: example_out_def)
  then show ?thesis
    using combine_idempotent[OF example_combine, of by_descending_identity] example_combine
    by fastforce
qed

section \<open>Properties of the stat objects\<close>

subsection \<open>Construction\<close>

lemma map_of_dict_set: "map_of (dict_set k v d) = (map_of d)(k \<mapsto> v)"
  by (induction d) auto

lemma keys_dict_set: "set (dict_keys (dict_set k v d)) = insert k (set (dict_keys d))"
proof -
  have "set (dict_keys (dict_set k v d)) = dom (map_of (dict_set k v d))"
    by (simp add: dict_keys_def dom_map_of_conv_image_fst)
  also have "\<dots> = insert k (dom (map_of d))"
    by (simp add: map_of_dict_set)
  finally show ?thesis
    by (simp add: dict_keys_def dom_map_of_conv_image_fst)
qed

lemma Single_init_loop_out:
  "Single_init_loop r props d0 = Inr d \<Longrightarrow> p \<notin> set props \<Longrightarrow> map_of d p = map_of d0 p"
  by (induction props arbitrary: d0) (auto simp: map_of_dict_set split: sum.splits)

lemma Single_init_loop_in:
  "Single_init_loop r props d0 = Inr d \<Longrightarrow> p \<in> set props \<Longrightarrow>
     \<exists>sp. SingleProperty_init r p = Inr sp \<and> map_of d p = Some sp"
proof (induction props arbitrary: d0)
  case Nil then show ?case by simp
next
  case (Cons q props)
  from Cons.prems(1) obtain sp0 where sp0: "SingleProperty_init r q = Inr sp0"
    and rest: "Single_init_loop r props (dict_set q sp0 d0) = Inr d"
    by (auto split: sum.splits)
  show ?case
  proof (cases "p \<in> set props")
    case True
    with rest show ?thesis by (rule Cons.IH)
  next
    case False
    with Cons.prems(2) have "p = q" by simp
    moreover have "map_of d p = map_of (dict_set q sp0 d0) p"
      using rest False by (rule Single_init_loop_out)
    ultimately show ?thesis using sp0 by (simp add: map_of_dict_set)
  qed
qed

lemma Single_init_loop_keys:
  "Single_init_loop r props d0 = Inr d \<Longrightarrow> set (dict_keys d) = set (dict_keys d0) \<union> set props"
  by (induction props arbitrary: d0) (auto simp: keys_dict_set split: sum.splits)

lemma Single_init_loop_succeeds:
  "\<forall>p\<in>set props. \<exists>sp. SingleProperty_init r p = Inr sp \<Longrightarrow> \<exists>d. Single_init_loop r props d0 = Inr d"
  by (induction props arbitrary: d0) auto

lemma TestedPair_init_loop_out:
  "TestedPair_init_loop c f s t props d0 = Inr d \<Longrightarrow> p \<notin> set props \<Longrightarrow> map_of d p = map_of d0 p"
  by (induction props arbitrary: d0) (auto simp: map_of_dict_set split: sum.splits)

lemma TestedPair_init_loop_in:
  "TestedPair_init_loop c f s t props d0 = Inr d \<Longrightarrow> p \<in> set props \<Longrightarrow>
     \<exists>x. TestedPairProperty_init c f s p t = Inr x \<and> map_of d p = Some x"
proof (induction props arbitrary: d0)
  case Nil then show ?case by simp
next
  case (Cons q props)
  from Cons.prems(1) obtain x0 where x0: "TestedPairProperty_init c f s q t = Inr x0"
    and rest: "TestedPair_init_loop c f s t props (dict_set q x0 d0) = Inr d"
    by (auto split: sum.splits)
  show ?case
  proof (cases "p \<in> set props")
    case True
    with rest show ?thesis by (rule Cons.IH)
  next
    case False
    with Cons.prems(2) have "p = q" by simp
    moreover have "map_of d p = map_of (dict_set q x0 d0) p"
      using rest False by (rule TestedPair_init_loop_out)
    ultimately show ?thesis using x0 by (simp add: map_of_dict_set)
  qed
qed

lemma TestedPair_init_loop_succeeds:
  "\<forall>p\<in>set props. \<exists>x. TestedPairProperty_init c f s p t = Inr x \<Longrightarrow>
     \<exists>d. TestedPair_init_loop c f s t props d0 = Inr d"
  by (induction props arbitrary: d0) auto

text \<open>What a constructed \<open>Single\<close> satisfies: every key has its wrapped property object.\<close>

lemma Single_init_keys:
  assumes "Single_init arg = Inr s" "p \<in> set (dict_keys (s_properties s))"
  shows "\<exists>sp. SingleProperty_init (s_rundata s) p = Inr sp \<and> map_of (s_properties s) p = Some sp"
proof -
  from assms(1) obtain props where
    loop: "Single_init_loop (s_rundata s) props [] = Inr (s_properties s)"
    by (auto simp: Single_init_def Let_def split: sum.splits)
  then have "set (dict_keys (s_properties s)) = set props"
    using Single_init_loop_keys[OF loop] by (simp add: dict_keys_def)
  with assms(2) have "p \<in> set props" by simp
  with loop show ?thesis by (rule Single_init_loop_in)
qed

lemma Single_copy:
  assumes "Single_init arg = Inr s"
  shows "\<exists>s'. Single_init (OfSingle s) = Inr s' \<and> s_rundata s' = s_rundata s
           \<and> set (dict_keys (s_properties s')) = set (dict_keys (s_properties s))"
proof -
  have "\<forall>p\<in>set (dict_keys (s_properties s)). \<exists>sp. SingleProperty_init (s_rundata s) p = Inr sp"
    using Single_init_keys[OF assms] by blast
  then obtain d where d: "Single_init_loop (s_rundata s) (dict_keys (s_properties s)) [] = Inr d"
    using Single_init_loop_succeeds by blast
  then have "set (dict_keys d) = set (dict_keys (s_properties s))"
    using Single_init_loop_keys[OF d] by (simp add: dict_keys_def)
  with d show ?thesis by (simp add: Single_init_def)
qed

lemma mean_diff_exchanged:
  "tpp_first y = tpp_second x \<Longrightarrow> tpp_second y = tpp_first x \<Longrightarrow>
     TestedPairProperty_mean_diff y = float_neg (TestedPairProperty_mean_diff x)"
  by (simp add: TestedPairProperty_mean_diff_def float_sub_def float_neg_def split: option.splits)

lemma distinct_dict_set: "distinct (map fst d) \<Longrightarrow> distinct (map fst (dict_set k v d))"
proof (induction d)
  case Nil then show ?case by simp
next
  case (Cons kv d)
  obtain k' v' where kv: "kv = (k', v')" by (cases kv)
  have "fst ` set (dict_set k v d) = insert k (fst ` set d)"
    using keys_dict_set[of k v d] by (simp add: dict_keys_def)
  with Cons kv show ?case by auto
qed

lemma Single_init_loop_distinct:
  "Single_init_loop r props d0 = Inr d \<Longrightarrow> distinct (map fst d0) \<Longrightarrow> distinct (map fst d)"
  by (induction props arbitrary: d0) (auto simp: distinct_dict_set split: sum.splits)

lemma Single_init_distinct: "Single_init arg = Inr s \<Longrightarrow> distinct (map fst (s_properties s))"
  by (auto simp: Single_init_def Let_def split: sum.splits dest: Single_init_loop_distinct)

subsection \<open>The example runs\<close>

lemma single_a_init: "Single_init (OfRunData run_a) = Inr single_a"
  by (simp add: Let_def Single_init_def RunData_properties_def run_a_def SingleProperty_init_def
      RunData_getitem_def single_a_def)

lemma single_b_init: "Single_init (OfRunData run_b) = Inr single_b"
  by (simp add: Let_def Single_init_def RunData_properties_def run_b_def SingleProperty_init_def
      RunData_getitem_def single_b_def)

lemma single_a_copy: "Single_init (OfSingle single_a) = Inr single_a"
  by (simp add: Let_def Single_init_def dict_keys_def SingleProperty_init_def
      RunData_getitem_def single_a_def run_a_def)

lemma pair_time_init:
  "TestedPairProperty_init tester_t single_a single_b ''time'' None = Inr pair_time"
  by (simp add: TestedPairProperty_init_def SingleProperty_init_def RunData_getitem_def
      single_a_def single_b_def run_a_def run_b_def pair_time_def resolve_tester_def)

lemma pair_memory_init:
  "TestedPairProperty_init tester_t single_a single_b ''memory'' None = Inr pair_memory"
  by (simp add: TestedPairProperty_init_def SingleProperty_init_def RunData_getitem_def
      single_a_def single_b_def run_a_def run_b_def pair_memory_def resolve_tester_def)

lemma pair_aa_init:
  "TestedPairProperty_init tester_t single_a single_a ''time'' None = Inr pair_aa"
  by (simp add: TestedPairProperty_init_def SingleProperty_init_def RunData_getitem_def
      single_a_def run_a_def pair_aa_def resolve_tester_def)

lemma pair_bb_init:
  "TestedPairProperty_init tester_t single_b single_b ''time'' None = Inr pair_bb"
  by (simp add: TestedPairProperty_init_def SingleProperty_init_def RunData_getitem_def
      single_b_def run_b_def pair_bb_def resolve_tester_def)

lemma tested_pair_ab_init:
  "TestedPair_init tester_t (OfRunData run_a) (OfRunData run_b) None = Inr tested_pair_ab"
  by (simp add: TestedPair_init_def single_a_init single_b_init shared_keys_def dict_keys_def
      tested_pair_ab_def resolve_tester_def pair_time_init pair_memory_init)
     (simp add: single_a_def single_b_def resolve_tester_def
       pair_time_init[unfolded single_a_def single_b_def]
       pair_memory_init[unfolded single_a_def single_b_def])

lemma pair_time_item: "TestedPair_getitem tested_pair_ab ''time'' = Inr pair_time"
  by (simp add: TestedPair_getitem_def tested_pair_ab_def)

lemma pair_time_mean_diff: "TestedPairProperty_mean_diff pair_time = Some (- 2)"
  by (simp add: TestedPairProperty_mean_diff_def SingleProperty_mean_def float_sub_def pair_time_def)

subsection \<open>Claims about equality, swapping and the tabular projection\<close>

lemma TestedPairProperty_eq_except_property_iff:
  "eq_except_property (TestedPairPropertyO a) (TestedPairPropertyO b)
     \<longleftrightarrow> sp_rundata (tpp_first a) = sp_rundata (tpp_second a) \<and> tpp_tester a = tpp_tester b"
  by (simp add: TestedPairProperty_eq_except_property_def SingleProperty_eq_except_property_def)

lemma TestedPair_eq_except_property_iff:
  "eq_except_property (TestedPairO a) (TestedPairO b)
     \<longleftrightarrow> s_rundata (tp_first a) = s_rundata (tp_first b)
         \<and> s_rundata (tp_second a) = s_rundata (tp_second b) \<and> tp_tester a = tp_tester b"
  by (simp add: TestedPair_eq_except_property_def Single_eq_def Single_eq_except_property_def)

text \<open>
  C7.  \<open>TestedPairProperty.eq_except_property\<close> compares the two samples of
  \<open>self\<close> with each other and never reads the samples of \<open>other\<close>.  Two
  comparisons of the runs \<open>a\<close> and \<open>b\<close>, for \<open>time\<close> and for \<open>memory\<close> and
  with the same tester, are not equal except for the property; the comparison of \<open>a\<close>
  with itself and the comparison of \<open>b\<close> with itself are.
\<close>

theorem eq_except_property_compares_own_samples:
  "TestedPairProperty_init tester_t single_a single_b ''time'' None = Inr pair_time
   \<and> TestedPairProperty_init tester_t single_a single_b ''memory'' None = Inr pair_memory
   \<and> \<not> eq_except_property (TestedPairPropertyO pair_time) (TestedPairPropertyO pair_memory)
   \<and> TestedPairProperty_init tester_t single_a single_a ''time'' None = Inr pair_aa
   \<and> TestedPairProperty_init tester_t single_b single_b ''time'' None = Inr pair_bb
   \<and> eq_except_property (TestedPairPropertyO pair_aa) (TestedPairPropertyO pair_bb)"
  by (simp add: pair_time_init pair_memory_init pair_aa_init pair_bb_init
      TestedPairProperty_eq_except_property_def SingleProperty_eq_except_property_def)
     (simp add: pair_time_def pair_memory_def pair_aa_def pair_bb_def run_a_def run_b_def)

text \<open>
  C6.  For a pair built by the constructor and a property it compares, \<open>swap\<close>
  returns a pair with the same tester whose comparison for that property has the same
  tester and the negated mean difference (nan where the mean difference is nan).
\<close>

theorem swap_negates_mean_diff:
  assumes init: "TestedPair_init configured a b tester = Inr pair"
    and item: "TestedPair_getitem pair property = Inr x"
  shows "\<exists>swapped y. swap configured pair = Inr swapped
           \<and> tp_tester swapped = tp_tester pair
           \<and> TestedPair_getitem swapped property = Inr y
           \<and> tpp_tester y = tpp_tester x
           \<and> TestedPairProperty_mean_diff y = float_neg (TestedPairProperty_mean_diff x)"
proof -
  from init obtain f s where f: "Single_init a = Inr f" and s: "Single_init b = Inr s"
    and loop: "TestedPair_init_loop configured f s tester (shared_keys f s) [] = Inr (tp_properties pair)"
    and fields: "tp_first pair = f" "tp_second pair = s" "tp_tester pair = resolve_tester configured tester"
    by (auto simp: TestedPair_init_def split: sum.splits)
  from item have m: "map_of (tp_properties pair) property = Some x"
    by (auto simp: TestedPair_getitem_def split: option.splits)
  have shared: "property \<in> set (shared_keys f s)"
  proof (rule ccontr)
    assume "property \<notin> set (shared_keys f s)"
    with loop have "map_of (tp_properties pair) property = map_of [] property"
      by (rule TestedPair_init_loop_out)
    with m show False by simp
  qed
  with loop m have x: "TestedPairProperty_init configured f s property tester = Inr x"
    using TestedPair_init_loop_in by fastforce
  obtain s' where s': "Single_init (OfSingle s) = Inr s'" "s_rundata s' = s_rundata s"
      "set (dict_keys (s_properties s')) = set (dict_keys (s_properties s))"
    using Single_copy[OF s] by blast
  obtain f' where f': "Single_init (OfSingle f) = Inr f'" "s_rundata f' = s_rundata f"
      "set (dict_keys (s_properties f')) = set (dict_keys (s_properties f))"
    using Single_copy[OF f] by blast
  let ?t = "Some (tp_tester pair)"
  have ok: "\<exists>y. TestedPairProperty_init configured s' f' p ?t = Inr y"
    if "p \<in> set (shared_keys s' f')" for p
  proof -
    from that have "p \<in> set (dict_keys (s_properties s))" "p \<in> set (dict_keys (s_properties f))"
      using s'(3) f'(3) by (auto simp: shared_keys_def)
    then obtain sp1 sp2 where "SingleProperty_init (s_rundata s) p = Inr sp1"
        "SingleProperty_init (s_rundata f) p = Inr sp2"
      using Single_init_keys[OF s] Single_init_keys[OF f] by blast
    then show ?thesis by (simp add: TestedPairProperty_init_def s'(2) f'(2))
  qed
  then obtain d where d: "TestedPair_init_loop configured s' f' ?t (shared_keys s' f') [] = Inr d"
    using TestedPair_init_loop_succeeds by blast
  define swapped where "swapped = \<lparr>tp_first = s', tp_second = f',
      tp_tester = resolve_tester configured ?t, tp_properties = d\<rparr>"
  have sw: "swap configured pair = Inr swapped"
    by (simp add: swap_def TestedPair_init_def fields(1,2) s'(1) f'(1) d swapped_def)
  have "property \<in> set (shared_keys s' f')"
    using shared s'(3) f'(3) by (auto simp: shared_keys_def)
  with d obtain y where y: "TestedPairProperty_init configured s' f' property ?t = Inr y"
      "map_of d property = Some y"
    using TestedPair_init_loop_in by blast
  from x y(1) have "tpp_first y = tpp_second x" "tpp_second y = tpp_first x"
      "tpp_tester y = tpp_tester x"
    by (auto simp: TestedPairProperty_init_def s'(2) f'(2) fields(3) resolve_tester_def
        split: sum.splits option.splits)
  then have "TestedPairProperty_mean_diff y = float_neg (TestedPairProperty_mean_diff x)"
    "tpp_tester y = tpp_tester x"
    using mean_diff_exchanged by blast+
  moreover have "TestedPair_getitem swapped property = Inr y"
    using y(2) by (simp add: TestedPair_getitem_def swapped_def)
  moreover have "tp_tester swapped = tp_tester pair"
    by (simp add: swapped_def resolve_tester_def)
  ultimately show ?thesis using sw by blast
qed

theorem swap_negates_mean_diff_witness:
  "TestedPair_init tester_t (OfRunData run_a) (OfRunData run_b) None = Inr tested_pair_ab
   \<and> TestedPair_getitem tested_pair_ab ''time'' = Inr pair_time
   \<and> TestedPairProperty_mean_diff pair_time = Some (- 2)
   \<and> (\<exists>swapped y. swap tester_t tested_pair_ab = Inr swapped
          \<and> tp_tester swapped = tp_tester tested_pair_ab
          \<and> TestedPair_getitem swapped ''time'' = Inr y
          \<and> tpp_tester y = tpp_tester pair_time
          \<and> TestedPairProperty_mean_diff y = Some 2)"
  using swap_negates_mean_diff[OF tested_pair_ab_init pair_time_item]
    tested_pair_ab_init pair_time_item pair_time_mean_diff
  by (simp add: float_neg_def)

text \<open>
  What holds of the projection of a \<open>Single\<close>: its columns are the sorted property
  names, and the column of a property is the observation sequence of the run.
\<close>

lemma map_of_series_dict:
  "distinct (map fst kvs) \<Longrightarrow>
     map_of (foldl (\<lambda>d (k, v). dict_set k (g v) d) d0 kvs) p
       = (case map_of kvs p of Some v \<Rightarrow> Some (g v) | None \<Rightarrow> map_of d0 p)"
proof (induction kvs arbitrary: d0)
  case Nil then show ?case by simp
next
  case (Cons kv kvs)
  obtain k v where kv: "kv = (k, v)" by (cases kv)
  have "map_of kvs k = None" using Cons.prems kv by (simp add: map_of_eq_None_iff)
  with Cons kv show ?case by (auto simp: map_of_dict_set split: option.splits)
qed

lemma column_DataFrame_init:
  "column (DataFrame_init series_dict columns) p
     = (if p \<in> set columns
        then Some (case map_of series_dict p of Some series \<Rightarrow> series | None \<Rightarrow> [])
        else None)"
  by (induction columns) (auto simp: column_def DataFrame_init_def)

lemma Single_data_frame_columns:
  "map fst (Single_get_data_frame s) = sort (dict_keys (s_properties s))"
  by (simp add: Single_get_data_frame_def DataFrame_init_def Let_def comp_def)

lemma Single_data_frame_column:
  assumes "Single_init arg = Inr s" "p \<in> set (dict_keys (s_properties s))"
  shows "column (Single_get_data_frame s) p = RunData_getitem (s_rundata s) p"
proof -
  obtain sp where sp: "SingleProperty_init (s_rundata s) p = Inr sp"
      "map_of (s_properties s) p = Some sp"
    using Single_init_keys[OF assms] by blast
  have "map_of (foldl (\<lambda>d (k, v). dict_set k (sp_data v) d) [] (s_properties s)) p = Some (sp_data sp)"
    using Single_init_distinct[OF assms(1)] sp(2) by (simp add: map_of_series_dict)
  moreover have "RunData_getitem (s_rundata s) p = Some (sp_data sp)"
    using sp(1) by (auto simp: SingleProperty_init_def split: option.splits)
  ultimately show ?thesis
    using assms(2) by (simp add: Single_get_data_frame_def Let_def column_DataFrame_init)
qed

text \<open>
  C8.  The projection of a \<open>TestedPairProperty\<close> stores the observations of the first
  sample under both column names.  For the comparison of the runs \<open>a\<close> and \<open>b\<close> on
  \<open>time\<close>, the second column holds \<open>[1, 2]\<close>, the observations of \<open>a\<close>, while
  those of \<open>b\<close> are \<open>[3, 4]\<close>.
\<close>

theorem pair_frame_repeats_first_sample:
  "TestedPairProperty_get_data_frame True pair_time
     = [(''a: time'', [1, 2]), (''b: time'', [1, 2])]
   \<and> sp_data (tpp_first pair_time) = [1, 2]
   \<and> sp_data (tpp_second pair_time) = [3, 4]"
  by (simp add: TestedPairProperty_get_data_frame_def pair_time_def SingleProperty_str_def
      run_a_def run_b_def DataFrame_init_def)

subsection \<open>Claims about the collection\<close>

lemma foldl_inter:
  "foldl (\<lambda>props single. props \<inter> K single) A xs = A \<inter> (\<Inter>x\<in>set xs. K x)"
  by (induction xs arbitrary: A) auto

text \<open>For a collection with samples, the query returns the sorted intersection.\<close>

lemma properties_of_samples:
  assumes "singles self \<noteq> []"
  shows "TestedPairsAndSingles_properties self
           = Some (sorted_list_of_set (\<Inter>s\<in>set (singles self). set (dict_keys (s_properties s))))"
proof -
  from assms obtain first rest where fr: "singles self = first # rest"
    by (cases "singles self") auto
  then show ?thesis
    by (simp add: TestedPairsAndSingles_properties_def foldl_inter)
qed

text \<open>The samples with the property sets \<open>{a, b}\<close>, \<open>{b, c}\<close> and \<open>{b}\<close> share \<open>b\<close>.\<close>

lemma properties_of_three_samples:
  "\<exists>c. TestedPairsAndSingles_init tester_t
          [OfRunData run_ab, OfRunData run_bc, OfRunData run_only_b] (Some []) = Inr c
       \<and> TestedPairsAndSingles_properties c = Some [''b'']"
proof -
  have 1: "\<exists>s. Single_init (OfRunData run_ab) = Inr s \<and> dict_keys (s_properties s) = [''a'', ''b'']"
    by (simp add: Let_def Single_init_def RunData_properties_def run_ab_def SingleProperty_init_def
        RunData_getitem_def dict_keys_def)
  have 2: "\<exists>s. Single_init (OfRunData run_bc) = Inr s \<and> dict_keys (s_properties s) = [''b'', ''c'']"
    by (simp add: Let_def Single_init_def RunData_properties_def run_bc_def SingleProperty_init_def
        RunData_getitem_def dict_keys_def)
  have 3: "\<exists>s. Single_init (OfRunData run_only_b) = Inr s \<and> dict_keys (s_properties s) = [''b'']"
    by (simp add: Let_def Single_init_def RunData_properties_def run_only_b_def SingleProperty_init_def
        RunData_getitem_def dict_keys_def)
  from 1 2 3 obtain s1 s2 s3 where s: "Single_init (OfRunData run_ab) = Inr s1"
     "Single_init (OfRunData run_bc) = Inr s2" "Single_init (OfRunData run_only_b) = Inr s3"
     "dict_keys (s_properties s1) = [''a'', ''b'']" "dict_keys (s_properties s2) = [''b'', ''c'']"
     "dict_keys (s_properties s3) = [''b'']"
    by blast
  have "TestedPairsAndSingles_init tester_t
           [OfRunData run_ab, OfRunData run_bc, OfRunData run_only_b] (Some [])
      = Inr \<lparr>singles = [s1, s2, s3], pairs = []\<rparr>"
    by (simp add: TestedPairsAndSingles_init_def s)
  moreover have "TestedPairsAndSingles_properties \<lparr>singles = [s1, s2, s3], pairs = []\<rparr> = Some [''b'']"
    by (simp add: TestedPairsAndSingles_properties_def s)
  ultimately show ?thesis by blast
qed

text \<open>
  C5.  A collection built from no samples has an empty list of singles, and the
  shared-property query on it takes the branch with the bare \<open>return\<close>: the result is
  Python's \<open>None\<close>, not a list.
\<close>

theorem properties_of_empty_collection:
  "TestedPairsAndSingles_init tester_t [] None = Inr \<lparr>singles = [], pairs = []\<rparr>
   \<and> TestedPairsAndSingles_properties \<lparr>singles = [], pairs = []\<rparr> = None"
  by (simp add: TestedPairsAndSingles_init_def TestedPairsAndSingles_properties_def)

section \<open>Properties of the message lists\<close>

subsection \<open>The messages of the example samples\<close>

lemma constant_std_dev_per_mean:
  "0 < n \<Longrightarrow>
     SingleProperty_std_dev_per_mean \<lparr>sp_rundata = r, sp_data = replicate n 1, sp_property = p\<rparr>
       = Fin 0"
  by (simp add: SingleProperty_std_dev_per_mean_def SingleProperty_std_dev_def
      SingleProperty_mean_def float_div_def sum_list_replicate)

lemma sp_10_raw:
  "SingleProperty__get_stat_messages sp_10
     = Some (Inr [None, None, Some warning_10, Some error_10])"
  by (simp add: SingleProperty__get_stat_messages_def sp_10_def[symmetric]
      constant_std_dev_per_mean[of 10 run_10 "''time''", folded sp_10_def]
      create_if_valid_def bind_result_def)
     (simp add: sp_10_def SingleProperty_observations_def num_ge_def StatMessage_init_def typecheck_def
      warning_10_def error_10_def)

lemma sp_50_raw:
  "SingleProperty__get_stat_messages sp_50 = Some (Inr [None, None, None, None])"
  by (simp add: SingleProperty__get_stat_messages_def sp_50_def[symmetric]
      constant_std_dev_per_mean[of 50 run_50 "''time''", folded sp_50_def]
      create_if_valid_def bind_result_def)
     (simp add: sp_50_def SingleProperty_observations_def num_ge_def)

lemma not_mergeable_10: "\<not> mergeable warning_10 error_10" "\<not> mergeable error_10 warning_10"
  by (simp_all add: mergeable_def warning_10_def error_10_def)

lemma combine_two_unmergeable:
  assumes "\<not> mergeable x y" "\<not> mergeable y x" "i < j"
  shows "combine by_identity [Some (i, x), Some (j, y)] = Some (Inr [(i, x), (j, y)])"
proof -
  have s: "set_of_list [msg. Some msg \<leftarrow> [Some (i, x), Some (j, y)]] = [(i, x), (j, y)]"
    using assms(3) by (simp add: set_of_list_def set_add_def)
  have i: "iteration by_identity [(i, x), (j, y)] = [(i, x), (j, y)]"
    using assms(3) by (simp add: iteration_def by_identity_def)
  have "find_pair [(i, x), (j, y)] = None"
    using assms by (simp add: find_pair_def)
  then have "combine_loop by_identity [(i, x), (j, y)] = Some (Inr [(i, x), (j, y)])"
    using i combine_loop_fixed[of by_identity "[(i, x), (j, y)]"] by simp
  then show ?thesis by (simp only: combine_def s i option.case sum.case)
qed

lemma combine_messages_10:
  "combine_messages by_identity [None, None, Some warning_10, Some error_10]
     = Some (Inr [warning_10, error_10])"
proof -
  have "set_of_list [msg. Some msg \<leftarrow> fresh_objects [None, None, Some warning_10, Some error_10]]
          = [(2, warning_10), (3, error_10)]"
    by (simp add: fresh_objects_def set_of_list_def set_add_def)
  moreover have "set_of_list [msg. Some msg \<leftarrow> [Some (2, warning_10), Some (3, error_10)]]
          = [(2::nat, warning_10), (3, error_10)]"
    by (simp add: set_of_list_def set_add_def)
  ultimately have "combine by_identity (fresh_objects [None, None, Some warning_10, Some error_10])
      = combine by_identity [Some (2, warning_10), Some (3, error_10)]"
    by (simp only: combine_def)
  then show ?thesis
    using combine_two_unmergeable[OF not_mergeable_10, of 2 3]
    by (simp add: combine_messages_def bind_result_def)
qed

lemma combine_messages_10_again:
  "combine_messages by_identity [Some warning_10, Some error_10]
     = Some (Inr [warning_10, error_10])"
proof -
  have "fresh_objects [Some warning_10, Some error_10] = [Some (0, warning_10), Some (1, error_10)]"
    by (simp add: fresh_objects_def)
  then show ?thesis
    using combine_two_unmergeable[OF not_mergeable_10, of 0 1]
    by (simp add: combine_messages_def bind_result_def)
qed

lemma combine_nothing: "combine slot (fresh_objects [None, None, None, None]) = Some (Inr [])"
proof -
  have "set_of_list [msg. Some msg \<leftarrow> fresh_objects [None, None, None, None]] = []"
    by (simp add: fresh_objects_def set_of_list_def)
  moreover have "combine_loop slot [] = Some (Inr [])"
    by (rule combine_loop_fixed) (simp add: find_pair_def iteration_def)
  ultimately show ?thesis by (simp add: combine_def iteration_def)
qed

lemma sp_10_messages:
  "SingleProperty_get_stat_messages by_identity sp_10 = Some (Inr [warning_10, error_10])"
  by (simp add: SingleProperty_get_stat_messages_def sp_10_raw bind_result_def combine_messages_10)

lemma sp_50_messages: "SingleProperty_get_stat_messages slot sp_50 = Some (Inr [])"
  by (simp add: SingleProperty_get_stat_messages_def sp_50_raw bind_result_def
      combine_messages_def combine_nothing)

lemma single_10_messages:
  "Single_get_stat_messages by_identity single_10 = Some (Inr [warning_10, error_10])"
  by (simp add: Single_get_stat_messages_def Single__get_stat_messages_def single_10_def
      sp_10_messages bind_result_def combine_messages_10_again)

lemma single_10_init: "Single_init (OfRunData run_10) = Inr single_10"
  by (simp add: Let_def Single_init_def RunData_properties_def run_10_def SingleProperty_init_def
      RunData_getitem_def single_10_def sp_10_def)

lemma single_50_init: "Single_init (OfRunData run_50) = Inr single_50"
  by (simp add: Let_def Single_init_def RunData_properties_def run_50_def SingleProperty_init_def
      RunData_getitem_def single_50_def sp_50_def)

subsection \<open>From the samples to the collection\<close>

text \<open>
  \<open>combine\<close> keeps the class of every message it is given, so a message of a sample
  that is part of a pair shows, merged or not, in the list of the pair and of the
  collection.
\<close>

lemma set_replace_pair:
  "set (replace_pair s pair m)
     = {y \<in> set s. fst y \<noteq> fst (fst pair) \<and> fst y \<noteq> fst (snd pair)} \<union> {(new_id s, m)}"
proof -
  have "new_id s \<notin> fst ` set (set_remove (snd pair) (set_remove (fst pair) s))"
    using new_id_fresh[of s] by (auto simp: set_set_remove)
  then show ?thesis
    by (auto simp: replace_pair_def set_add_def set_set_remove)
qed

lemma combine_loop_keeps_classes:
  "combine_loop slot msgs = Some (Inr out) \<Longrightarrow> distinct (map fst msgs) \<Longrightarrow> x \<in> set msgs \<Longrightarrow>
     \<exists>y\<in>set out. msg_class (snd y) = msg_class (snd x)"
proof (induction msgs arbitrary: x rule: measure_induct_rule[where f = length])
  case (less msgs)
  show ?case
  proof (cases "find_pair (iteration slot msgs)")
    case None
    then have "combine_loop slot msgs = Some (Inr msgs)" by (rule combine_loop_fixed)
    with less.prems show ?thesis by auto
  next
    case (Some pair)
    obtain a b where pair: "pair = (a, b)" by (cases pair)
    from Some pair have ab: "a \<in> set msgs" "b \<in> set msgs" "fst a \<noteq> fst b"
      and mg: "mergeable (snd a) (snd b)"
      using find_pair_Some[of "iteration slot msgs" a b] by auto
    show ?thesis
    proof (cases "add (snd a) (snd b)")
      case (Inl e)
      with Some pair have "combine_loop slot msgs = Some (Inl e)"
        by (subst combine_loop.simps) simp
      with less.prems show ?thesis by simp
    next
      case (Inr merged)
      let ?next = "replace_pair msgs (a, b) merged"
      have "combine_loop slot msgs = combine_loop slot ?next"
        using Some pair Inr by (subst combine_loop.simps) simp
      then have run: "combine_loop slot ?next = Some (Inr out)" using less.prems(1) by simp
      have shorter: "length ?next < length msgs" using ab by (rule replace_pair_shorter)
      have cls: "msg_class merged = msg_class (snd a)" "msg_class merged = msg_class (snd b)"
        using add_fields[OF Inr] mg by (simp_all add: mergeable_def)
      have "\<exists>z\<in>set ?next. msg_class (snd z) = msg_class (snd x)"
      proof (cases "fst x = fst a \<or> fst x = fst b")
        case False
        with less.prems(3) have "x \<in> set ?next" by (simp add: set_replace_pair)
        then show ?thesis by blast
      next
        case True
        have "(new_id msgs, merged) \<in> set ?next" by (simp add: set_replace_pair)
        moreover have "x = a \<or> x = b"
          using True less.prems(2,3) ab(1,2)
          by (metis eq_key_imp_eq_value prod.collapse)
        then have "msg_class merged = msg_class (snd x)" using cls by auto
        ultimately show ?thesis by (metis snd_conv)
      qed
      then obtain z where "z \<in> set ?next" "msg_class (snd z) = msg_class (snd x)" by blast
      moreover have "distinct (map fst ?next)"
        using less.prems(2) by (rule distinct_replace_pair)
      ultimately show ?thesis using less.IH[OF shorter run] by metis
    qed
  qed
qed


lemma ids_somes_enumerate:
  "map fst [msg. Some msg \<leftarrow> map (\<lambda>(i, m). map_option (Pair i) m) (enumerate n messages)]
     = map fst (filter (\<lambda>(i, m). m \<noteq> None) (enumerate n messages))"
  by (induction messages arbitrary: n) (auto split: option.splits)

lemma ids_fresh_objects: "distinct (map fst [msg. Some msg \<leftarrow> fresh_objects messages])"
proof -
  have "distinct (map fst (enumerate 0 messages))" by simp
  then have "distinct (map fst (filter (\<lambda>(i, m). m \<noteq> None) (enumerate 0 messages)))"
    by (rule distinct_map_filter)
  then show ?thesis unfolding fresh_objects_def ids_somes_enumerate .
qed

lemma member_fresh_objects:
  "Some m \<in> set messages \<Longrightarrow> \<exists>i. (i, m) \<in> set [msg. Some msg \<leftarrow> fresh_objects messages]"
proof -
  assume "Some m \<in> set messages"
  then obtain k where "k < length messages" "messages ! k = Some m"
    by (auto simp: in_set_conv_nth)
  then have "(k, Some m) \<in> set (enumerate 0 messages)"
    by (auto simp: in_set_enumerate_eq)
  then have "Some (k, m) \<in> set (fresh_objects messages)"
    by (force simp: fresh_objects_def)
  then show ?thesis by (auto simp: set_somes)
qed

lemma combine_messages_keeps_classes:
  assumes "combine_messages slot messages = Some (Inr out)" "Some m \<in> set messages"
  shows "\<exists>y\<in>set out. msg_class y = msg_class m"
proof -
  let ?objs = "[msg. Some msg \<leftarrow> fresh_objects messages]"
  have d: "distinct (map fst ?objs)" by (rule ids_fresh_objects)
  then have s: "set_of_list ?objs = ?objs" by (rule set_of_list_distinct)
  from assms(1) obtain res where res: "combine_loop slot ?objs = Some (Inr res)"
    and out: "out = map snd (iteration slot res)"
    by (auto simp: combine_messages_def combine_def bind_result_def s split: option.splits sum.splits)
  from assms(2) obtain i where "(i, m) \<in> set ?objs" using member_fresh_objects by blast
  with res d obtain y where "y \<in> set res" "msg_class (snd y) = msg_class m"
    using combine_loop_keeps_classes by fastforce
  then show ?thesis using out by force
qed

lemma bind_result_Inr:
  "bind_result r f = Some (Inr v) \<longleftrightarrow> (\<exists>u. r = Some (Inr u) \<and> f u = Some (Inr v))"
  by (auto simp: bind_result_def split: option.splits sum.splits)

lemma collect_member:
  "collect rs = Some (Inr vs) \<Longrightarrow> r \<in> set rs \<Longrightarrow> \<exists>v\<in>set vs. r = Some (Inr v)"
proof (induction rs arbitrary: vs)
  case Nil then show ?case by simp
next
  case (Cons r0 rs)
  from Cons.prems(1) obtain v0 vs0 where r0: "r0 = Some (Inr v0)"
    and rest: "collect rs = Some (Inr vs0)" and vs: "vs = v0 # vs0"
    by (auto simp: bind_result_Inr)
  show ?case
  proof (cases "r = r0")
    case True
    with r0 vs show ?thesis by simp
  next
    case False
    with Cons.prems(2) have "r \<in> set rs" by simp
    with Cons.IH[OF rest] vs show ?thesis by auto
  qed
qed

lemma create_if_valid_One:
  "create_if_valid c parent v (One q)
     = Inr (if check_value c v then None
            else Some \<lparr>msg_class = c, msg_parent = parent, msg_properties = [q], msg_values = [v]\<rparr>)"
  by (simp add: create_if_valid_def StatMessage_init_def typecheck_def)

lemma SingleProperty_few_observations:
  assumes "SingleProperty_get_stat_messages slot sp = Some (Inr out)"
    and "SingleProperty_observations sp < 15"
  shows "(\<exists>m\<in>set out. msg_class m = NotEnoughObservationsWarning)
         \<and> (\<exists>m\<in>set out. msg_class m = NotEnoughObservationsError)"
proof -
  let ?n = "Fin (real (SingleProperty_observations sp))"
  have c: "\<not> check_value NotEnoughObservationsWarning ?n" "\<not> check_value NotEnoughObservationsError ?n"
    using assms(2) by (simp_all add: num_ge_def)
  from assms(1) obtain raw where raw: "SingleProperty__get_stat_messages sp = Some (Inr raw)"
    and out: "combine_messages slot raw = Some (Inr out)"
    by (auto simp: SingleProperty_get_stat_messages_def bind_result_Inr)
  define w where "w = \<lparr>msg_class = NotEnoughObservationsWarning, msg_parent = SinglePropertyO sp,
      msg_properties = [sp_property sp], msg_values = [?n]\<rparr>"
  define e where "e = \<lparr>msg_class = NotEnoughObservationsError, msg_parent = SinglePropertyO sp,
      msg_properties = [sp_property sp], msg_values = [?n]\<rparr>"
  from raw c have "\<exists>m1 m2. raw = [m1, m2, Some w, Some e]"
    by (auto simp: SingleProperty__get_stat_messages_def create_if_valid_One bind_result_def
        w_def e_def)
  then have "Some w \<in> set raw" "msg_class w = NotEnoughObservationsWarning"
      "Some e \<in> set raw" "msg_class e = NotEnoughObservationsError"
    by (auto simp: w_def e_def)
  then show ?thesis
    using combine_messages_keeps_classes[OF out] by metis
qed

lemma TestedPairProperty_keeps_classes:
  assumes "TestedPairProperty_get_stat_messages slot x = Some (Inr out)"
    and "sp = tpp_first x \<or> sp = tpp_second x"
  shows "\<exists>l. SingleProperty_get_stat_messages slot sp = Some (Inr l)
           \<and> (\<forall>m\<in>set l. \<exists>y\<in>set out. msg_class y = msg_class m)"
proof -
  from assms(1) obtain raw where raw: "TestedPairProperty__get_stat_messages slot x = Some (Inr raw)"
    and out: "combine_messages slot raw = Some (Inr out)"
    by (auto simp: TestedPairProperty_get_stat_messages_def bind_result_Inr)
  from raw obtain l1 l2 eff where l: "SingleProperty_get_stat_messages slot (tpp_first x) = Some (Inr l1)"
      "SingleProperty_get_stat_messages slot (tpp_second x) = Some (Inr l2)"
      "raw = map Some (l1 @ l2) @ eff"
    by (auto simp: TestedPairProperty__get_stat_messages_def bind_result_Inr)
  have "\<forall>m\<in>set (l1 @ l2). \<exists>y\<in>set out. msg_class y = msg_class m"
    using combine_messages_keeps_classes[OF out] l(3) by auto
  with l(1,2) assms(2) show ?thesis by auto
qed

lemma TestedPair_keeps_classes:
  assumes "TestedPair_get_stat_messages slot p = Some (Inr out)"
    and "(q, x) \<in> set (tp_properties p)"
  shows "\<exists>l. TestedPairProperty_get_stat_messages slot x = Some (Inr l)
           \<and> (\<forall>m\<in>set l. \<exists>y\<in>set out. msg_class y = msg_class m)"
proof -
  from assms(1) obtain raw where raw: "TestedPair__get_stat_messages slot p = Some (Inr raw)"
    and out: "combine_messages slot raw = Some (Inr out)"
    by (auto simp: TestedPair_get_stat_messages_def bind_result_Inr)
  from raw obtain lists where lists:
      "collect (map (\<lambda>(prop, tpp). TestedPairProperty_get_stat_messages slot tpp) (tp_properties p))
         = Some (Inr lists)"
      "raw = map Some (concat lists)"
    by (auto simp: TestedPair__get_stat_messages_def bind_result_Inr)
  have "TestedPairProperty_get_stat_messages slot x
          \<in> set (map (\<lambda>(prop, tpp). TestedPairProperty_get_stat_messages slot tpp) (tp_properties p))"
    using assms(2) by force
  with lists(1) obtain l where l: "l \<in> set lists"
      "TestedPairProperty_get_stat_messages slot x = Some (Inr l)"
    using collect_member by blast
  have "\<forall>m\<in>set l. \<exists>y\<in>set out. msg_class y = msg_class m"
    using combine_messages_keeps_classes[OF out] lists(2) l(1) by auto
  with l(2) show ?thesis by blast
qed

lemma collection_keeps_messages:
  assumes "TestedPairsAndSingles_get_stat_messages slot c = Some (Inr out)"
    and "p \<in> set (pairs c)"
  shows "\<exists>l. TestedPair_get_stat_messages slot p = Some (Inr l) \<and> set l \<subseteq> set out"
proof -
  from assms(1) obtain lists where lists:
      "collect (map (TestedPair_get_stat_messages slot) (pairs c)) = Some (Inr lists)"
      "out = concat lists"
    by (auto simp: TestedPairsAndSingles_get_stat_messages_def bind_result_Inr)
  have "TestedPair_get_stat_messages slot p \<in> set (map (TestedPair_get_stat_messages slot) (pairs c))"
    using assms(2) by simp
  with lists(1) obtain l where "l \<in> set lists" "TestedPair_get_stat_messages slot p = Some (Inr l)"
    using collect_member by blast
  with lists(2) show ?thesis by auto
qed

text \<open>
  A sample with fewer than 15 observations of a property that is compared in a pair of
  the collection puts the warning and the error into the collection's list.
\<close>

lemma pair_messages_show_few_observations:
  assumes "TestedPairsAndSingles_get_stat_messages slot c = Some (Inr out)"
    and "p \<in> set (pairs c)" and "(q, x) \<in> set (tp_properties p)"
    and "sp = tpp_first x \<or> sp = tpp_second x"
    and "SingleProperty_observations sp < 15"
  shows "(\<exists>m\<in>set out. msg_class m = NotEnoughObservationsWarning)
         \<and> (\<exists>m\<in>set out. msg_class m = NotEnoughObservationsError)"
proof -
  obtain l1 where l1: "TestedPair_get_stat_messages slot p = Some (Inr l1)" "set l1 \<subseteq> set out"
    using collection_keeps_messages[OF assms(1,2)] by blast
  obtain l2 where l2: "TestedPairProperty_get_stat_messages slot x = Some (Inr l2)"
      "\<forall>m\<in>set l2. \<exists>y\<in>set l1. msg_class y = msg_class m"
    using TestedPair_keeps_classes[OF l1(1) assms(3)] by blast
  obtain l3 where l3: "SingleProperty_get_stat_messages slot sp = Some (Inr l3)"
      "\<forall>m\<in>set l3. \<exists>y\<in>set l2. msg_class y = msg_class m"
    using TestedPairProperty_keeps_classes[OF l2(1) assms(4)] by blast
  have "(\<exists>m\<in>set l3. msg_class m = NotEnoughObservationsWarning)
         \<and> (\<exists>m\<in>set l3. msg_class m = NotEnoughObservationsError)"
    using SingleProperty_few_observations[OF l3(1) assms(5)] .
  with l3(2) l2(2) l1(2) show ?thesis by (metis subsetD)
qed

subsection \<open>Claims about the messages of a collection\<close>

text \<open>A collection built from one sample has no pair, hence no message.\<close>

lemma one_sample_no_messages:
  assumes "TestedPairsAndSingles_init configured [x] None = Inr c"
  shows "pairs c = [] \<and> TestedPairsAndSingles_get_stat_messages slot c = Some (Inr [])"
proof -
  from assms have "pairs c = []"
    by (auto simp: TestedPairsAndSingles_init_def split: sum.splits if_splits)
  then show ?thesis
    by (simp add: TestedPairsAndSingles_get_stat_messages_def bind_result_def)
qed

text \<open>
  C4.  \<open>TestedPairsAndSingles.get_stat_messages\<close> walks \<open>self.pairs\<close> only.  The
  collection built from the one run with 10 observations of \<open>time\<close> has that sample
  as its only single and no pair: the sample's own message list holds the warning and
  the error for too few observations, the collection's message list is empty.
\<close>

theorem collection_of_one_sample_has_no_messages:
  "TestedPairsAndSingles_init tester_t [OfRunData run_10] None = Inr collection_10
   \<and> singles collection_10 = [single_10]
   \<and> Single_get_stat_messages by_identity single_10 = Some (Inr [warning_10, error_10])
   \<and> TestedPairsAndSingles_get_stat_messages by_identity collection_10 = Some (Inr [])"
  by (simp add: TestedPairsAndSingles_init_def single_10_init single_10_messages collection_10_def
      TestedPairsAndSingles_get_stat_messages_def bind_result_def)

text \<open>The sample with 50 observations has no message, and neither has its collection.\<close>

lemma collection_of_fifty:
  "TestedPairsAndSingles_init tester_t [OfRunData run_50] None = Inr collection_50
   \<and> SingleProperty_get_stat_messages slot sp_50 = Some (Inr [])
   \<and> TestedPairsAndSingles_get_stat_messages slot collection_50 = Some (Inr [])"
  by (simp add: TestedPairsAndSingles_init_def single_50_init sp_50_messages collection_50_def
      TestedPairsAndSingles_get_stat_messages_def bind_result_def)

subsection \<open>Claims about the cache\<close>

text \<open>
  The collection's own \<open>get_stat_messages\<close> returns a new list object at every call.
\<close>

lemma collection_list_is_new:
  "TestedPairsAndSingles_get_stat_messages_object (Some (Inr msgs)) (self, fresh)
     = Some (Inr ((fresh, msgs), self, Suc fresh))"
  by (simp add: TestedPairsAndSingles_get_stat_messages_object_def bind_result_def)

text \<open>
  C9, as stated, fails.  The property object of the run with 50 observations has no
  message.  Its first call of \<open>get_stat_messages\<close> stores and returns the new empty
  list object 1; the second call finds the stored list empty, computes again, and
  returns the new list object 2.  The collection of the one run with 10 observations
  returns a new list object at each of two calls as well, and stores neither.
\<close>

theorem empty_list_is_computed_again:
  "BaseStatObject_init 0 = (\<lparr>stat_messages = (0, [])\<rparr>, 1)
   \<and> BaseStatObject_get_stat_messages (SingleProperty_get_stat_messages by_identity sp_50)
        (\<lparr>stat_messages = (0, [])\<rparr>, 1)
       = Some (Inr ((1, []), \<lparr>stat_messages = (1, [])\<rparr>, 2))
   \<and> BaseStatObject_get_stat_messages (SingleProperty_get_stat_messages by_identity sp_50)
        (\<lparr>stat_messages = (1, [])\<rparr>, 2)
       = Some (Inr ((2, []), \<lparr>stat_messages = (2, [])\<rparr>, 3))
   \<and> TestedPairsAndSingles_get_stat_messages_object
        (TestedPairsAndSingles_get_stat_messages by_identity collection_10)
        (\<lparr>stat_messages = (0, [])\<rparr>, 1)
       = Some (Inr ((1, []), \<lparr>stat_messages = (0, [])\<rparr>, 2))
   \<and> TestedPairsAndSingles_get_stat_messages_object
        (TestedPairsAndSingles_get_stat_messages by_identity collection_10)
        (\<lparr>stat_messages = (0, [])\<rparr>, 2)
       = Some (Inr ((2, []), \<lparr>stat_messages = (0, [])\<rparr>, 3))
   \<and> (1 :: nat, [] :: StatMessage list) \<noteq> (2, [])"
  by (simp add: BaseStatObject_init_def BaseStatObject_get_stat_messages_def sp_50_messages
      bind_result_def TestedPairsAndSingles_get_stat_messages_object_def
      TestedPairsAndSingles_get_stat_messages_def collection_10_def)

text \<open>
  C9, amended.  For a stat object with the inherited \<open>get_stat_messages\<close>: a call
  that finds the stored list empty returns the list that \<open>combine\<close> computes and
  stores it; and when a call has returned a non-empty list, the next call returns the
  identical list object and leaves the object and the runtime as they are, whatever a
  new computation would give.
\<close>

theorem nonempty_list_is_cached:
  assumes "BaseStatObject_get_stat_messages computed (self, fresh) = Some (Inr (l, self', fresh'))"
  shows "(snd (stat_messages self) = []
            \<longrightarrow> computed = Some (Inr (snd l)) \<and> stat_messages self' = l)
         \<and> (snd l \<noteq> []
            \<longrightarrow> BaseStatObject_get_stat_messages computed' (self', fresh')
                  = Some (Inr (l, self', fresh')))"
  using assms
  by (auto simp: BaseStatObject_get_stat_messages_def bind_result_def
      split: if_splits option.splits sum.splits)

theorem nonempty_list_is_cached_witness:
  "BaseStatObject_get_stat_messages (SingleProperty_get_stat_messages by_identity sp_10)
       (\<lparr>stat_messages = (0, [])\<rparr>, 1)
     = Some (Inr ((1, [warning_10, error_10]), \<lparr>stat_messages = (1, [warning_10, error_10])\<rparr>, 2))
   \<and> snd (stat_messages \<lparr>stat_messages = (0, [])\<rparr>) = []
   \<and> snd (1 :: nat, [warning_10, error_10]) \<noteq> []
   \<and> SingleProperty_get_stat_messages by_identity sp_10 = Some (Inr [warning_10, error_10])
   \<and> BaseStatObject_get_stat_messages (SingleProperty_get_stat_messages by_descending_identity sp_10)
        (\<lparr>stat_messages = (1, [warning_10, error_10])\<rparr>, 2)
     = Some (Inr ((1, [warning_10, error_10]), \<lparr>stat_messages = (1, [warning_10, error_10])\<rparr>, 2))"
proof -
  have first: "BaseStatObject_get_stat_messages (SingleProperty_get_stat_messages by_identity sp_10)
       (\<lparr>stat_messages = (0, [])\<rparr>, 1)
     = Some (Inr ((1, [warning_10, error_10]), \<lparr>stat_messages = (1, [warning_10, error_10])\<rparr>, 2))"
    by (simp add: BaseStatObject_get_stat_messages_def sp_10_messages bind_result_def)
  show ?thesis
    using nonempty_list_is_cached[OF first,
        of "SingleProperty_get_stat_messages by_descending_identity sp_10"] first sp_10_messages
    by simp
qed

end
